theory Spec2Isabelle
  imports Complex_Main
begin

section \<open>Errors\<close>

text \<open>
  Every exception the modelled Python can raise is a value of this type. \<open>NaN\<close> is not an
  exception: it marks the one place (the mean of an empty tensor) where the program goes
  on with a not-a-number, which the real numbers of this model do not have.
\<close>

datatype error =
    AttributeError string
  | KeyError string
  | ZeroDivisionError
  | TypeError
  | ValueError
  | RuntimeError
  | SameFileError
  | ImportError string
  | NaN

definition ebind :: "error + 'a \<Rightarrow> ('a \<Rightarrow> error + 'b) \<Rightarrow> error + 'b" where
  "ebind m f = (case m of Inl e \<Rightarrow> Inl e | Inr x \<Rightarrow> f x)"

section \<open>The metric accumulator (helper.py, class AverageMeter)\<close>

text \<open>
  \<^verbatim>\<open>
  def reset(self):
      self.val = 0
      self.avg = 0
      self.sum = 0
      self.count = 0
  def update(self, val, n=1):
      self.val = val
      self.sum += val * n
      self.count += n
      self.avg = self.sum / self.count
  \<close>
  The fields \<open>sum\<close> and \<open>count\<close> are written \<open>sum_m\<close> and \<open>count_m\<close>. Numbers are real
  numbers; Python raises ZeroDivisionError when \<open>self.count\<close> is zero at the division. The
  meters are local to a runner, so a meter whose update raised is never read again, and
  \<open>update\<close> returns either the error or the updated meter. \<open>updates\<close> is a sequence of
  \<open>update(value, weight)\<close> calls.
\<close>

record meter =
  val :: real
  avg :: real
  sum_m :: real
  count_m :: real

definition reset :: meter where
  "reset = \<lparr>val = 0, avg = 0, sum_m = 0, count_m = 0\<rparr>"

definition update :: "meter \<Rightarrow> real \<Rightarrow> real \<Rightarrow> error + meter" where
  "update m v n =
     (let s = sum_m m + v * n; c = count_m m + n
      in if c = 0 then Inl ZeroDivisionError
         else Inr \<lparr>val = v, avg = s / c, sum_m = s, count_m = c\<rparr>)"

fun updates :: "meter \<Rightarrow> (real \<times> real) list \<Rightarrow> error + meter" where
  "updates m [] = Inr m"
| "updates m ((v, n) # xs) = ebind (update m v n) (\<lambda>m'. updates m' xs)"

section \<open>Tensors\<close>

text \<open>
  The tensors the runners handle have rank 2 (batch \<open>\<times>\<close> feature): a number of rows, a number
  of columns and the entries, which are real numbers. A binary operation broadcasts as the
  framework does: in each dimension the two sizes are equal or one of them is 1, and a
  dimension of size 1 is read at index 0 whatever the index; any other pair of sizes raises
  RuntimeError.
\<close>

record tensor =
  nrows :: nat
  ncols :: nat
  elem :: "nat \<Rightarrow> nat \<Rightarrow> real"

definition bdim :: "nat \<Rightarrow> nat \<Rightarrow> nat option" where
  "bdim a b = (if a = b then Some a else if a = 1 then Some b else if b = 1 then Some a else None)"

definition pick :: "nat \<Rightarrow> nat \<Rightarrow> nat" where
  "pick n i = (if n = 1 then 0 else i)"

definition entry :: "tensor \<Rightarrow> nat \<Rightarrow> nat \<Rightarrow> real" where
  "entry a i j = elem a (pick (nrows a) i) (pick (ncols a) j)"

definition tmap :: "(real \<Rightarrow> real) \<Rightarrow> tensor \<Rightarrow> tensor" where
  "tmap f a = \<lparr>nrows = nrows a, ncols = ncols a, elem = (\<lambda>i j. f (elem a i j))\<rparr>"

definition tmap2 :: "(real \<Rightarrow> real \<Rightarrow> real) \<Rightarrow> tensor \<Rightarrow> tensor \<Rightarrow> error + tensor" where
  "tmap2 f a b =
     (case bdim (nrows a) (nrows b) of
        None \<Rightarrow> Inl RuntimeError
      | Some r \<Rightarrow>
         (case bdim (ncols a) (ncols b) of
            None \<Rightarrow> Inl RuntimeError
          | Some c \<Rightarrow> Inr \<lparr>nrows = r, ncols = c, elem = (\<lambda>i j. f (entry a i j) (entry b i j))\<rparr>))"

text \<open>\<open>torch.mean\<close> over all entries; of an empty tensor it is not a number.\<close>

definition mean :: "tensor \<Rightarrow> error + real" where
  "mean a =
     (if nrows a * ncols a = 0 then Inl NaN
      else Inr ((\<Sum>i<nrows a. \<Sum>j<ncols a. elem a i j) / real (nrows a * ncols a)))"

text \<open>\<open>nn.MSELoss()\<close>, the criterion \<open>main\<close> passes to both runners.\<close>

definition criterion :: "tensor \<Rightarrow> tensor \<Rightarrow> error + real" where
  "criterion input tgt = ebind (tmap2 (-) input tgt) (\<lambda>d. mean (tmap (\<lambda>x. x ^ 2) d))"

text \<open>A tensor from its rows, for concrete inputs.\<close>

definition of_rows :: "real list list \<Rightarrow> tensor" where
  "of_rows xs = \<lparr>nrows = length xs, ncols = (case xs of [] \<Rightarrow> 0 | r # _ \<Rightarrow> length r),
                 elem = (\<lambda>i j. xs ! i ! j)\<rparr>"

section \<open>The loss computations of the two runners (main.py)\<close>

text \<open>
  Lines 190 to 202 of \<open>train\<close>, the branch \<open>args.net_structure != 1\<close>:
  \<^verbatim>\<open>
  branch_square = torch.pow((branches_out-target), 2)
  branch_loss = torch.mean((torch.exp(-log_var_control)*branch_square+log_var_speed)*0.5*mask)*4
  speed_square = torch.pow((pred_speed-speed), 2)
  speed_loss = torch.mean((torch.exp(-log_var_speed)*speed_square+log_var_speed)*0.5)
  uncertain_loss = args.branch_weight*branch_loss+args.speed_weight*speed_loss
  with torch.no_grad():
      ori_loss = args.branch_weight * torch.mean(branch_square*mask*4)\
          + args.speed_weight * torch.mean(speed_square)
      uncertain_control_mean = torch.mean(torch.exp(log_var_control) * mask * 4)
      uncertain_speed_mean = torch.mean(torch.exp(log_var_speed))
  \<close>
\<close>

record losses =
  branch_loss :: real
  speed_loss :: real
  uncertain_loss :: real

record diagnostics =
  ori_loss :: real
  uncertain_control_mean :: real
  uncertain_speed_mean :: real

definition train_branch_square :: "tensor \<Rightarrow> tensor \<Rightarrow> error + tensor" where
  "train_branch_square branches_out target =
     ebind (tmap2 (-) branches_out target) (\<lambda>d. Inr (tmap (\<lambda>x. x ^ 2) d))"

definition train_branch_loss :: "tensor \<Rightarrow> tensor \<Rightarrow> tensor \<Rightarrow> tensor \<Rightarrow> error + real" where
  "train_branch_loss branch_square log_var_control log_var_speed mask_t =
     ebind (tmap2 (*) (tmap exp (tmap uminus log_var_control)) branch_square) (\<lambda>t1.
     ebind (tmap2 (+) t1 log_var_speed) (\<lambda>t2.
     ebind (tmap2 (*) (tmap (\<lambda>x. x * 0.5) t2) mask_t) (\<lambda>t3.
     ebind (mean t3) (\<lambda>m. Inr (m * 4)))))"

definition train_speed_loss :: "tensor \<Rightarrow> tensor \<Rightarrow> error + real" where
  "train_speed_loss speed_square log_var_speed =
     ebind (tmap2 (*) (tmap exp (tmap uminus log_var_speed)) speed_square) (\<lambda>t1.
     ebind (tmap2 (+) t1 log_var_speed) (\<lambda>t2.
     mean (tmap (\<lambda>x. x * 0.5) t2)))"

definition train_uncertain ::
  "real \<Rightarrow> real \<Rightarrow> tensor \<Rightarrow> tensor \<Rightarrow> tensor \<Rightarrow> tensor \<Rightarrow> tensor \<Rightarrow> tensor \<Rightarrow> tensor
    \<Rightarrow> error + losses" where
  "train_uncertain branch_weight speed_weight branches_out pred_speed log_var_control
      log_var_speed speed target mask_t =
     ebind (train_branch_square branches_out target) (\<lambda>branch_square.
     ebind (train_branch_loss branch_square log_var_control log_var_speed mask_t) (\<lambda>bl.
     ebind (train_branch_square pred_speed speed) (\<lambda>speed_square.
     ebind (train_speed_loss speed_square log_var_speed) (\<lambda>sl.
     Inr \<lparr>branch_loss = bl, speed_loss = sl,
          uncertain_loss = branch_weight * bl + speed_weight * sl\<rparr>))))"

definition train_diagnostics ::
  "real \<Rightarrow> real \<Rightarrow> tensor \<Rightarrow> tensor \<Rightarrow> tensor \<Rightarrow> tensor \<Rightarrow> tensor \<Rightarrow> error + diagnostics" where
  "train_diagnostics branch_weight speed_weight branch_square speed_square log_var_control
      log_var_speed mask_t =
     ebind (tmap2 (*) branch_square mask_t) (\<lambda>t1.
     ebind (mean (tmap (\<lambda>x. x * 4) t1)) (\<lambda>m1.
     ebind (mean speed_square) (\<lambda>m2.
     ebind (tmap2 (*) (tmap exp log_var_control) mask_t) (\<lambda>t2.
     ebind (mean (tmap (\<lambda>x. x * 4) t2)) (\<lambda>ucm.
     ebind (mean (tmap exp log_var_speed)) (\<lambda>usm.
     Inr \<lparr>ori_loss = branch_weight * m1 + speed_weight * m2,
          uncertain_control_mean = ucm, uncertain_speed_mean = usm\<rparr>))))))"

text \<open>
  Lines 209 to 212 of \<open>train\<close>, the branch \<open>args.net_structure == 1\<close>:
  \<^verbatim>\<open>
  branch_loss = criterion(branches_out*mask, target) * 4
  speed_loss = criterion(pred_speed, speed)
  uncertain_loss = args.branch_weight * branch_loss + args.speed_weight * speed_loss
  \<close>
\<close>

definition train_simple ::
  "real \<Rightarrow> real \<Rightarrow> tensor \<Rightarrow> tensor \<Rightarrow> tensor \<Rightarrow> tensor \<Rightarrow> tensor \<Rightarrow> error + losses" where
  "train_simple branch_weight speed_weight branches_out pred_speed speed target mask_t =
     ebind (tmap2 (*) branches_out mask_t) (\<lambda>masked.
     ebind (criterion masked target) (\<lambda>c1.
     ebind (criterion pred_speed speed) (\<lambda>sl.
     Inr \<lparr>branch_loss = c1 * 4, speed_loss = sl,
          uncertain_loss = branch_weight * (c1 * 4) + speed_weight * sl\<rparr>)))"

text \<open>
  Lines 279 to 297 of \<open>evaluate\<close>:
  \<^verbatim>\<open>
  mask_out = branches_out * mask
  ori_branch_loss = criterion(mask_out, target) * 4
  ori_speed_loss = criterion(pred_speed, speed)
  branch_loss = torch.mean((torch.exp(-log_var_control)
                            * torch.pow((branches_out - target), 2)
                            + log_var_control) * 0.5 * mask) * 4
  speed_loss = torch.mean((torch.exp(-log_var_speed)
                           * torch.pow((pred_speed - speed), 2)
                           + log_var_speed) * 0.5)
  uncertain_loss = args.branch_weight*branch_loss + args.speed_weight*speed_loss
  ori_loss = args.branch_weight*ori_branch_loss + args.speed_weight*ori_speed_loss
  uncertain_control_mean = torch.mean(torch.exp(log_var_control) * mask * 4)
  uncertain_speed_mean = torch.mean(torch.exp(log_var_speed))
  \<close>
\<close>

definition evaluate_branch_loss :: "tensor \<Rightarrow> tensor \<Rightarrow> tensor \<Rightarrow> tensor \<Rightarrow> error + real" where
  "evaluate_branch_loss branches_out target log_var_control mask_t =
     ebind (tmap2 (-) branches_out target) (\<lambda>d.
     ebind (tmap2 (*) (tmap exp (tmap uminus log_var_control)) (tmap (\<lambda>x. x ^ 2) d)) (\<lambda>t1.
     ebind (tmap2 (+) t1 log_var_control) (\<lambda>t2.
     ebind (tmap2 (*) (tmap (\<lambda>x. x * 0.5) t2) mask_t) (\<lambda>t3.
     ebind (mean t3) (\<lambda>m. Inr (m * 4))))))"

definition evaluate_speed_loss :: "tensor \<Rightarrow> tensor \<Rightarrow> tensor \<Rightarrow> error + real" where
  "evaluate_speed_loss pred_speed speed log_var_speed =
     ebind (tmap2 (-) pred_speed speed) (\<lambda>d.
     ebind (tmap2 (*) (tmap exp (tmap uminus log_var_speed)) (tmap (\<lambda>x. x ^ 2) d)) (\<lambda>t1.
     ebind (tmap2 (+) t1 log_var_speed) (\<lambda>t2.
     mean (tmap (\<lambda>x. x * 0.5) t2))))"

definition evaluate_losses ::
  "real \<Rightarrow> real \<Rightarrow> tensor \<Rightarrow> tensor \<Rightarrow> tensor \<Rightarrow> tensor \<Rightarrow> tensor \<Rightarrow> tensor \<Rightarrow> tensor
    \<Rightarrow> error + losses \<times> diagnostics" where
  "evaluate_losses branch_weight speed_weight branches_out pred_speed log_var_control
      log_var_speed speed target mask_t =
     ebind (tmap2 (*) branches_out mask_t) (\<lambda>mask_out.
     ebind (criterion mask_out target) (\<lambda>c1.
     ebind (criterion pred_speed speed) (\<lambda>ori_speed_loss.
     ebind (evaluate_branch_loss branches_out target log_var_control mask_t) (\<lambda>bl.
     ebind (evaluate_speed_loss pred_speed speed log_var_speed) (\<lambda>sl.
     ebind (tmap2 (*) (tmap exp log_var_control) mask_t) (\<lambda>t2.
     ebind (mean (tmap (\<lambda>x. x * 4) t2)) (\<lambda>ucm.
     ebind (mean (tmap exp log_var_speed)) (\<lambda>usm.
     Inr (\<lparr>branch_loss = bl, speed_loss = sl,
           uncertain_loss = branch_weight * bl + speed_weight * sl\<rparr>,
          \<lparr>ori_loss = branch_weight * (c1 * 4) + speed_weight * ori_speed_loss,
           uncertain_control_mean = ucm, uncertain_speed_mean = usm\<rparr>)))))))))"

subsection \<open>The formulas of the specification\<close>

text \<open>
  The specification writes the uncertainty-mode losses entry by entry:
  \<open>branch_loss = mean((exp(-log_var_control) * branch_sq + log_var_speed) * 0.5 * mask) * 4\<close>
  with \<open>branch_sq = (branch_pred - target)^2\<close>, and
  \<open>speed_loss = mean((exp(-log_var_speed) * speed_sq + log_var_speed) * 0.5)\<close>.
  Here they are as sums over the entries of the common (broadcast) shape of the operands.
\<close>

definition obdim :: "nat option \<Rightarrow> nat option \<Rightarrow> nat option" where
  "obdim x y = (case x of None \<Rightarrow> None | Some a \<Rightarrow> (case y of None \<Rightarrow> None | Some b \<Rightarrow> bdim a b))"

fun bdims :: "nat list \<Rightarrow> nat option" where
  "bdims [] = Some 1"
| "bdims (d # ds) = obdim (Some d) (bdims ds)"

text \<open>
  The mean of the entries \<open>g i j\<close> over a shape whose two sizes come from broadcasting:
  a size that does not exist is the framework's RuntimeError.
\<close>

definition mean_of :: "nat option \<Rightarrow> nat option \<Rightarrow> (nat \<Rightarrow> nat \<Rightarrow> real) \<Rightarrow> error + real" where
  "mean_of ro co g =
     (case ro of
        None \<Rightarrow> Inl RuntimeError
      | Some r \<Rightarrow>
         (case co of
            None \<Rightarrow> Inl RuntimeError
          | Some c \<Rightarrow>
             if r * c = 0 then Inl NaN
             else Inr ((\<Sum>i<r. \<Sum>j<c. g i j) / real (r * c))))"

definition spec_branch_loss :: "tensor \<Rightarrow> tensor \<Rightarrow> tensor \<Rightarrow> tensor \<Rightarrow> tensor \<Rightarrow> error + real" where
  "spec_branch_loss branch_pred target log_var_control log_var_speed mask_t =
     (let ts = [branch_pred, target, log_var_control, log_var_speed, mask_t]
      in ebind (mean_of (bdims (map nrows ts)) (bdims (map ncols ts))
                 (\<lambda>i j. (exp (- entry log_var_control i j)
                            * (entry branch_pred i j - entry target i j) ^ 2
                          + entry log_var_speed i j) * 0.5 * entry mask_t i j))
           (\<lambda>m. Inr (m * 4)))"

definition spec_speed_loss :: "tensor \<Rightarrow> tensor \<Rightarrow> tensor \<Rightarrow> error + real" where
  "spec_speed_loss speed_pred speed log_var_speed =
     (let ts = [speed_pred, speed, log_var_speed]
      in mean_of (bdims (map nrows ts)) (bdims (map ncols ts))
           (\<lambda>i j. (exp (- entry log_var_speed i j)
                      * (entry speed_pred i j - entry speed i j) ^ 2
                    + entry log_var_speed i j) * 0.5))"

text \<open>A tensor all of whose entries are zero, as \<open>log_var_control = 0\<close> reads.\<close>

definition zero_tensor :: "tensor \<Rightarrow> bool" where
  "zero_tensor a = (\<forall>i<nrows a. \<forall>j<ncols a. elem a i j = 0)"

text \<open>
  Over a shape of \<open>r\<close> rows and \<open>c\<close> columns, every entry of the mask is 1, or it is 0 and the
  target is 0 there as well.
\<close>

definition mask_selects :: "tensor \<Rightarrow> tensor \<Rightarrow> nat \<Rightarrow> nat \<Rightarrow> bool" where
  "mask_selects mask_t target r c =
     (\<forall>i<r. \<forall>j<c. entry mask_t i j = 1 \<or> (entry mask_t i j = 0 \<and> entry target i j = 0))"

section \<open>Configuration (main.py, the argument parser and the namespace \<open>args\<close>)\<close>

text \<open>
  \<open>args\<close> is the namespace \<open>parser.parse_args()\<close> returns. Each option the parser declares is
  an attribute of the declared type; these are the fields below (\<open>args.id\<close> is \<open>run_id\<close>,
  \<open>args.evaluate\<close> is \<open>evaluate_flag\<close>, and the option \<open>-lr\<close>, \<open>--learning_rate\<close> is stored as
  \<open>args.learning_rate\<close>; the options no modelled line reads are left out). A namespace is an
  open object, and the program reads attributes the parser does not declare: \<open>args.lr\<close>
  (declared: \<open>learning_rate\<close>), \<open>args.dist_backend\<close>, \<open>args.dist_url\<close>, \<open>args.print_freq\<close>
  (declared: \<open>--print_frequency\<close>), \<open>args.bacth_size\<close> (declared: \<open>--batch_size\<close>), \<open>args.cpu\<close>
  and \<open>args.evaluate_log\<close> (declared: \<open>--evaluation_log\<close>).
  Such an attribute is looked up in \<open>extra\<close>, the attributes set on the namespace beyond the
  declared ones, and the lookup raises AttributeError when it is not there. A number is a
  real number, whether Python holds it as bool, int or float.
\<close>

datatype pyval = PyNone | PyNum real | PyStr string

record args =
  speed_weight :: real
  branch_weight :: real
  run_id :: string
  epochs :: int
  start_epoch :: int
  batch_size :: int
  print_frequency :: int
  resume :: string
  evaluate_flag :: bool
  evaluation_log :: string
  gpu :: "int option"
  net_structure :: int
  learning_rate :: real
  lr_gamma :: real
  lr_step :: int
  world_size :: int
  seed :: "int option"
  extra :: "string \<Rightarrow> pyval option"

text \<open>
  The namespace of a run without command-line options: the parser's defaults (lines 24 to
  44), and \<open>args.distributed = args.world_size > 1\<close>, which line 86 sets.
\<close>

definition parser_defaults :: args where
  "parser_defaults =
     \<lparr>speed_weight = 0.1, branch_weight = 0.1, run_id = ''test'', epochs = 90, start_epoch = 0,
      batch_size = 1, print_frequency = 10, resume = [], evaluate_flag = False,
      evaluation_log = [], gpu = None, net_structure = 2, learning_rate = 1 / 10000,
      lr_gamma = 0.5, lr_step = 10, world_size = 1, seed = None,
      extra = [''distributed'' \<mapsto> PyNum 0]\<rparr>"

definition getattr :: "args \<Rightarrow> string \<Rightarrow> error + pyval" where
  "getattr a name = (case extra a name of None \<Rightarrow> Inl (AttributeError name) | Some v \<Rightarrow> Inr v)"

definition as_num :: "pyval \<Rightarrow> error + real" where
  "as_num v = (case v of PyNum x \<Rightarrow> Inr x | _ \<Rightarrow> Inl TypeError)"

text \<open>Python's \<open>x % y\<close> on numbers: the sign of the divisor, ZeroDivisionError for \<open>y = 0\<close>.\<close>

definition py_mod :: "real \<Rightarrow> real \<Rightarrow> error + real" where
  "py_mod x y = (if y = 0 then Inl ZeroDivisionError else Inr (x - y * of_int \<lfloor>x / y\<rfloor>))"

text \<open>
  \<open>str.format\<close> with named fields: the fields of the template are looked up, in order, among
  the keyword arguments of the call; the first one that is missing raises KeyError.
\<close>

fun format_check :: "string list \<Rightarrow> string list \<Rightarrow> error option" where
  "format_check [] kwargs = None"
| "format_check (f # fs) kwargs =
     (if f \<in> set kwargs then format_check fs kwargs else Some (KeyError f))"

section \<open>Collaborators and the state the runners change\<close>

text \<open>
  The network, the optimizer and the data loader are outside the repository. A batch is an
  image (of any type) with the three tensors the losses read. The network's forward pass
  depends on the training-mode flag and the parameters, may raise, and returns two or four
  tensors; backward pass and optimizer step together are one function of the learning rate,
  the optimizer state, the parameters and the batch. Moving a tensor to a device
  (\<open>.cuda(...)\<close>) does not change its entries and is not modelled further. The wall-clock
  meters \<open>batch_time\<close> and \<open>data_time\<close> reach no summary record and are left out.
\<close>

record 'i batch =
  b_img :: 'i
  b_speed :: tensor
  b_target :: tensor
  b_mask :: tensor

datatype model_output = Out2 tensor tensor | Out4 tensor tensor tensor tensor

record ('m, 'o, 'i) net =
  forward :: "bool \<Rightarrow> 'm \<Rightarrow> 'i \<Rightarrow> tensor \<Rightarrow> error + model_output"
  opt_step :: "real \<Rightarrow> 'o \<Rightarrow> 'm \<Rightarrow> 'i batch \<Rightarrow> error + 'o \<times> 'm"

text \<open>
  What a runner can change and what stays changed when it raises: the parameters, the
  optimizer state, the records of the summary writer (series, value, step) and the lines
  given to \<open>output_log\<close>.
\<close>

record ('m, 'o) world =
  model :: 'm
  optimizer :: 'o
  lr :: real
  writer :: "(string \<times> real \<times> int) list"
  log_lines :: "string list"

section \<open>The training runner (main.py, \<open>train\<close>)\<close>

record train_meters =
  uncertain_losses :: meter
  ori_losses :: meter
  branch_losses :: meter
  speed_losses :: meter
  uncertain_control_means :: meter
  uncertain_speed_means :: meter

definition train_meters_init :: train_meters where
  "train_meters_init =
     \<lparr>uncertain_losses = reset, ori_losses = reset, branch_losses = reset,
      speed_losses = reset, uncertain_control_means = reset, uncertain_speed_means = reset\<rparr>"

text \<open>
  Lines 187 to 216: the forward pass, the losses of the mode \<open>args.net_structure\<close> selects,
  and the meter updates. Unpacking a 2-tuple into four names, or a 4-tuple into two, raises
  ValueError.
  \<^verbatim>\<open>
  if args.net_structure != 1:
      branches_out, pred_speed, log_var_control, log_var_speed = model(img, speed)
      ...
      with torch.no_grad():
          ...
          ori_losses.update(ori_loss.item(), args.batch_size)
          uncertain_control_means.update(uncertain_control_mean.item(), args.bacth_size)
          uncertain_speed_means.update(uncertain_speed_mean.item(), args.bacth_size)
  else:
      branches_out, pred_speed = model(img, speed)
      ...
  uncertain_losses.update(uncertain_loss.item(), args.batch_size)
  branch_losses.update(branch_loss.item(), args.batch_size)
  speed_losses.update(speed_loss.item(), args.batch_size)
  \<close>
\<close>

definition update_losses :: "args \<Rightarrow> losses \<Rightarrow> train_meters \<Rightarrow> error + train_meters" where
  "update_losses a l ms =
     ebind (update (uncertain_losses ms) (uncertain_loss l) (of_int (batch_size a))) (\<lambda>m1.
     ebind (update (branch_losses ms) (branch_loss l) (of_int (batch_size a))) (\<lambda>m2.
     ebind (update (speed_losses ms) (speed_loss l) (of_int (batch_size a))) (\<lambda>m3.
     Inr (ms\<lparr>uncertain_losses := m1, branch_losses := m2, speed_losses := m3\<rparr>))))"

definition train_compute ::
  "args \<Rightarrow> ('m, 'o, 'i) net \<Rightarrow> 'm \<Rightarrow> 'i batch \<Rightarrow> train_meters \<Rightarrow> error + train_meters" where
  "train_compute a nt m b ms =
     (if net_structure a \<noteq> 1 then
        ebind (forward nt True m (b_img b) (b_speed b)) (\<lambda>out.
        case out of
          Out2 _ _ \<Rightarrow> Inl ValueError
        | Out4 branches_out pred_speed log_var_control log_var_speed \<Rightarrow>
            ebind (train_uncertain (branch_weight a) (speed_weight a) branches_out pred_speed
                     log_var_control log_var_speed (b_speed b) (b_target b) (b_mask b)) (\<lambda>l.
            ebind (train_branch_square branches_out (b_target b)) (\<lambda>branch_square.
            ebind (train_branch_square pred_speed (b_speed b)) (\<lambda>speed_square.
            ebind (train_diagnostics (branch_weight a) (speed_weight a) branch_square
                     speed_square log_var_control log_var_speed (b_mask b)) (\<lambda>d.
            ebind (update (ori_losses ms) (ori_loss d) (of_int (batch_size a))) (\<lambda>m1.
            ebind (ebind (getattr a ''bacth_size'') as_num) (\<lambda>n.
            ebind (update (uncertain_control_means ms) (uncertain_control_mean d) n) (\<lambda>m2.
            ebind (update (uncertain_speed_means ms) (uncertain_speed_mean d) n) (\<lambda>m3.
            update_losses a l
              (ms\<lparr>ori_losses := m1, uncertain_control_means := m2,
                  uncertain_speed_means := m3\<rparr>))))))))))
      else
        ebind (forward nt True m (b_img b) (b_speed b)) (\<lambda>out.
        case out of
          Out4 _ _ _ _ \<Rightarrow> Inl ValueError
        | Out2 branches_out pred_speed \<Rightarrow>
            ebind (train_simple (branch_weight a) (speed_weight a) branches_out pred_speed
                     (b_speed b) (b_target b) (b_mask b)) (\<lambda>l.
            update_losses a l ms)))"

text \<open>
  Lines 228 to 255: the summary records and the log line.
  \<^verbatim>\<open>
  if i % args.print_freq == 0 or i+1 ==len(loader):
      writer.add_scalar('train/branch_loss', branch_losses.val, step + i)
      writer.add_scalar('train/speed_loss', speed_losses.val, step + i)
      writer.add_scalar('train/uncertain_loss', uncertain_losses.val, step + i)
      writer.add_scalar('train/ori_loss', ori_losses.val, step + i)
      writer.add_scalar('train/control_uncertain', uncertain_control_means.val, step + i)
      writer.add_scalar('train/speed_uncertain', uncertain_speed_means.val, step + i)
      output_log(
          'Epoch:[{0}][{1}/{2}]\t'
          'Time {bacth_time.val:.3f}({batch_time.avg:.3f})\t'
          'Data {data_time.val:.3f}({data_time.avg:.3f})\t'
          'Branch loss {branch_loss.val:.3f}({branch_loss.avg:.3f})\t'
          'Speed loss {Speed_loss.val:.3f}({Speed_loss.avg:.3f})\t'
          'Uncertain loss {uncertain_loss.val:.4f}({uncertain_loss.avg:.4f})\t'
          'Ori Loss {ori_loss.val:.4f}({ori_loss.avg:.4f})\t'
          'Control Uncertain {control_uncertain.val:.4f}({control_uncertain.avg:.4f})\t'
          'Speed Uncertain {speed_uncertain.val:.4f}({speed_uncertain.avg:.4f})\t'
          .format(
              epoch+1, i, len(loader), batch_time=batch_time,
              data_time=data_time,
              branch_loss=branch_losses,
              speed_loss=speed_losses,
              uncertain_loss=uncertain_losses,
              ori_loss=ori_losses,
              control_uncertain=uncertain_control_means,
              speed_uncertain=uncertain_control_means,
              ), logging)
  \<close>
  with \<open>step = epoch*len(loader)\<close> (line 177). The message is formatted before \<open>output_log\<close>
  is called; a log line is recorded by the head of its template.
\<close>

definition print_due :: "args \<Rightarrow> nat \<Rightarrow> nat \<Rightarrow> error + bool" where
  "print_due a i n =
     ebind (getattr a ''print_freq'') (\<lambda>v.
     ebind (as_num v) (\<lambda>p.
     ebind (py_mod (real i) p) (\<lambda>r.
     Inr (r = 0 \<or> i + 1 = n))))"

definition train_records :: "train_meters \<Rightarrow> int \<Rightarrow> (string \<times> real \<times> int) list" where
  "train_records ms k =
     [(''train/branch_loss'', val (branch_losses ms), k),
      (''train/speed_loss'', val (speed_losses ms), k),
      (''train/uncertain_loss'', val (uncertain_losses ms), k),
      (''train/ori_loss'', val (ori_losses ms), k),
      (''train/control_uncertain'', val (uncertain_control_means ms), k),
      (''train/speed_uncertain'', val (uncertain_speed_means ms), k)]"

definition train_log_fields :: "string list" where
  "train_log_fields =
     [''bacth_time'', ''batch_time'', ''data_time'', ''data_time'',
      ''branch_loss'', ''branch_loss'', ''Speed_loss'', ''Speed_loss'',
      ''uncertain_loss'', ''uncertain_loss'', ''ori_loss'', ''ori_loss'',
      ''control_uncertain'', ''control_uncertain'', ''speed_uncertain'', ''speed_uncertain'']"

definition train_log_kwargs :: "string list" where
  "train_log_kwargs =
     [''batch_time'', ''data_time'', ''branch_loss'', ''speed_loss'', ''uncertain_loss'',
      ''ori_loss'', ''control_uncertain'', ''speed_uncertain'']"

definition train_batch ::
  "args \<Rightarrow> ('m, 'o, 'i) net \<Rightarrow> int \<Rightarrow> nat \<Rightarrow> nat \<Rightarrow> 'i batch \<Rightarrow> train_meters \<Rightarrow> ('m, 'o) world
    \<Rightarrow> (error + train_meters) \<times> ('m, 'o) world" where
  "train_batch a nt epoch n i b ms w =
     (case train_compute a nt (model w) b ms of
        Inl e \<Rightarrow> (Inl e, w)
      | Inr ms' \<Rightarrow>
         (case opt_step nt (lr w) (optimizer w) (model w) b of
            Inl e \<Rightarrow> (Inl e, w)
          | Inr (o', m') \<Rightarrow>
             (let w1 = w\<lparr>model := m', optimizer := o'\<rparr>
              in case print_due a i n of
                   Inl e \<Rightarrow> (Inl e, w1)
                 | Inr False \<Rightarrow> (Inr ms', w1)
                 | Inr True \<Rightarrow>
                    (let w2 = w1\<lparr>writer := writer w1 @ train_records ms' (epoch * int n + int i)\<rparr>
                     in case format_check train_log_fields train_log_kwargs of
                          Some e \<Rightarrow> (Inl e, w2)
                        | None \<Rightarrow> (Inr ms', w2\<lparr>log_lines := log_lines w2 @ [''Epoch:'']\<rparr>)))))"

fun train_loop ::
  "args \<Rightarrow> ('m, 'o, 'i) net \<Rightarrow> int \<Rightarrow> nat \<Rightarrow> nat \<Rightarrow> 'i batch list \<Rightarrow> train_meters \<Rightarrow> ('m, 'o) world
    \<Rightarrow> (error + train_meters) \<times> ('m, 'o) world" where
  "train_loop a nt epoch n i [] ms w = (Inr ms, w)"
| "train_loop a nt epoch n i (b # bs) ms w =
     (case train_batch a nt epoch n i b ms w of
        (Inl e, w') \<Rightarrow> (Inl e, w')
      | (Inr ms', w') \<Rightarrow> train_loop a nt epoch n (Suc i) bs ms' w')"

text \<open>
  \<open>train(loader, model, criterion, optimizer, epoch, writer)\<close> returns
  \<open>branch_losses.avg, speed_losses.avg, uncertain_losses.avg\<close>.
\<close>

definition train ::
  "args \<Rightarrow> ('m, 'o, 'i) net \<Rightarrow> 'i batch list \<Rightarrow> int \<Rightarrow> ('m, 'o) world
    \<Rightarrow> (error + real \<times> real \<times> real) \<times> ('m, 'o) world" where
  "train a nt loader epoch w =
     (case train_loop a nt epoch (length loader) 0 loader train_meters_init w of
        (Inl e, w') \<Rightarrow> (Inl e, w')
      | (Inr ms, w') \<Rightarrow>
          (Inr (avg (branch_losses ms), avg (speed_losses ms), avg (uncertain_losses ms)), w'))"

section \<open>The evaluation runner (main.py, \<open>evaluate\<close>)\<close>

text \<open>
  \<^verbatim>\<open>
  model.eval()
  with torch.no_grad():
      for i, (img, speed, target, mask) in enumerate(loader):
          img = img.cuda(args.cpu, non_blocking=True)
          ...
          branches_out, pred_speed, log_var_control, log_var_speed = model(img, speed)
          ...
          uncertain_losses.update(uncertain_loss.item(), args.batch_size)
          ori_losses.update(ori_loss.item(), args.batch_size)
          uncertain_control_means.update(uncertain_control_mean.item(), args.batch_size)
          uncertain_speed_means.update(uncertain_speed_mean.item(), args.batch_size)
      writer.add_scalar('eval/uncertain_loss', uncertain_losses.avg, epoch+1)
      writer.add_scalar('eval/origin_loss', ori_losses.avg, epoch+1)
      writer.add_scalar('eval/control_uncertain', uncertain_control_means.avg, epoch+1)
      writer.add_scalar('eval/speed_uncertain', uncertain_speed_means.avg, epoch+1)
      output_log('Epoch Test: [{0}]\t' 'Time {batch_time.avg:.3f}\t' ... .format(
          epoch + 1, batch_time=batch_time, uncertain_loss=uncertain_losses,
          ori_loss=ori_losses, control_uncertain=uncertain_control_means,
          speed_uncertain=uncertain_speed_means), logging)
  return uncertain_losses.avg
  \<close>
\<close>

record eval_meters =
  ev_uncertain_losses :: meter
  ev_ori_losses :: meter
  ev_uncertain_control_means :: meter
  ev_uncertain_speed_means :: meter

definition eval_meters_init :: eval_meters where
  "eval_meters_init =
     \<lparr>ev_uncertain_losses = reset, ev_ori_losses = reset,
      ev_uncertain_control_means = reset, ev_uncertain_speed_means = reset\<rparr>"

definition evaluate_batch ::
  "args \<Rightarrow> ('m, 'o, 'i) net \<Rightarrow> 'm \<Rightarrow> 'i batch \<Rightarrow> eval_meters \<Rightarrow> error + eval_meters" where
  "evaluate_batch a nt m b ms =
     ebind (getattr a ''cpu'') (\<lambda>device.
     ebind (forward nt False m (b_img b) (b_speed b)) (\<lambda>out.
     case out of
       Out2 _ _ \<Rightarrow> Inl ValueError
     | Out4 branches_out pred_speed log_var_control log_var_speed \<Rightarrow>
         ebind (evaluate_losses (branch_weight a) (speed_weight a) branches_out pred_speed
                  log_var_control log_var_speed (b_speed b) (b_target b) (b_mask b)) (\<lambda>(l, d).
         ebind (update (ev_uncertain_losses ms) (uncertain_loss l) (of_int (batch_size a))) (\<lambda>m1.
         ebind (update (ev_ori_losses ms) (ori_loss d) (of_int (batch_size a))) (\<lambda>m2.
         ebind (update (ev_uncertain_control_means ms) (uncertain_control_mean d)
                  (of_int (batch_size a))) (\<lambda>m3.
         ebind (update (ev_uncertain_speed_means ms) (uncertain_speed_mean d)
                  (of_int (batch_size a))) (\<lambda>m4.
         Inr \<lparr>ev_uncertain_losses = m1, ev_ori_losses = m2,
              ev_uncertain_control_means = m3, ev_uncertain_speed_means = m4\<rparr>)))))))"

fun evaluate_loop ::
  "args \<Rightarrow> ('m, 'o, 'i) net \<Rightarrow> 'm \<Rightarrow> 'i batch list \<Rightarrow> eval_meters \<Rightarrow> error + eval_meters" where
  "evaluate_loop a nt m [] ms = Inr ms"
| "evaluate_loop a nt m (b # bs) ms =
     ebind (evaluate_batch a nt m b ms) (\<lambda>ms'. evaluate_loop a nt m bs ms')"

definition eval_records :: "eval_meters \<Rightarrow> int \<Rightarrow> (string \<times> real \<times> int) list" where
  "eval_records ms k =
     [(''eval/uncertain_loss'', avg (ev_uncertain_losses ms), k),
      (''eval/origin_loss'', avg (ev_ori_losses ms), k),
      (''eval/control_uncertain'', avg (ev_uncertain_control_means ms), k),
      (''eval/speed_uncertain'', avg (ev_uncertain_speed_means ms), k)]"

definition eval_log_fields :: "string list" where
  "eval_log_fields =
     [''batch_time'', ''uncertain_loss'', ''ori_loss'', ''control_uncertain'', ''speed_uncertain'']"

definition eval_log_kwargs :: "string list" where
  "eval_log_kwargs =
     [''batch_time'', ''uncertain_loss'', ''ori_loss'', ''control_uncertain'', ''speed_uncertain'']"

definition evaluate ::
  "args \<Rightarrow> ('m, 'o, 'i) net \<Rightarrow> 'i batch list \<Rightarrow> int \<Rightarrow> ('m, 'o) world
    \<Rightarrow> (error + real) \<times> ('m, 'o) world" where
  "evaluate a nt loader epoch w =
     (case evaluate_loop a nt (model w) loader eval_meters_init of
        Inl e \<Rightarrow> (Inl e, w)
      | Inr ms \<Rightarrow>
         (let w1 = w\<lparr>writer := writer w @ eval_records ms (epoch + 1)\<rparr>
          in case format_check eval_log_fields eval_log_kwargs of
               Some e \<Rightarrow> (Inl e, w1)
             | None \<Rightarrow>
                 (Inr (avg (ev_uncertain_losses ms)),
                  w1\<lparr>log_lines := log_lines w1 @ [''Epoch Test:'']\<rparr>)))"

section \<open>Checkpoints (helper.py, \<open>save_checkpoint\<close>)\<close>

text \<open>
  The best metric starts as \<open>math.inf\<close>; an evaluation metric is a real number. Python's
  \<open>min(prec, best_prec)\<close> returns its second argument only when that is smaller.
\<close>

datatype pyfloat = Fin real | PInf

definition lt_best :: "real \<Rightarrow> pyfloat \<Rightarrow> bool" where
  "lt_best prec best = (case best of PInf \<Rightarrow> True | Fin b \<Rightarrow> prec < b)"

definition py_min :: "real \<Rightarrow> pyfloat \<Rightarrow> pyfloat" where
  "py_min prec best = (case best of PInf \<Rightarrow> Fin prec | Fin b \<Rightarrow> if b < prec then Fin b else Fin prec)"

text \<open>
  The dictionary \<open>main\<close> saves: \<open>epoch\<close>, \<open>state_dict\<close>, \<open>best_prec\<close>, \<open>scheduler\<close> (the
  schedule's step counter) and \<open>optimizer\<close> (its state and learning rate).
\<close>

record ('m, 'o) checkpoint =
  ck_epoch :: int
  ck_state_dict :: 'm
  ck_best_prec :: pyfloat
  ck_scheduler :: nat
  ck_optimizer :: "'o \<times> real"

text \<open>\<open>os.path.join\<close> of two components (POSIX) and \<open>str\<close> of an integer.\<close>

definition path_join :: "string \<Rightarrow> string \<Rightarrow> string" where
  "path_join a b =
     (if b \<noteq> [] \<and> hd b = CHR ''/'' then b
      else if a = [] \<or> last a = CHR ''/'' then a @ b
      else a @ ''/'' @ b)"

definition digit_char :: "nat \<Rightarrow> char" where
  "digit_char d = ''0123456789'' ! d"

fun str_nat :: "nat \<Rightarrow> string" where
  "str_nat n = (if n < 10 then [digit_char n] else str_nat (n div 10) @ [digit_char (n mod 10)])"

definition str_int :: "int \<Rightarrow> string" where
  "str_int i = (if i < 0 then ''-'' @ str_nat (nat (- i)) else str_nat (nat i))"

text \<open>
  The operating system, the serialisation of the framework and the construction of the
  network, the optimizer, the schedule and the data set are outside the repository. They
  are the fields of \<open>system\<close>, over a file system of any type \<open>'fs\<close>; nothing is assumed
  about them. A call that writes returns the exception it raised, if any, and the file
  system it left behind, so that \<open>os.makedirs\<close> can raise for a directory that exists,
  \<open>torch.save\<close> for a file name whose directory does not, and \<open>shutil.copyfile\<close> for a source
  and a destination that are the same file.

    \<^item> \<open>makedirs p\<close> is \<open>os.makedirs(p)\<close>;
    \<^item> \<open>start_logging f d\<close> is \<open>logging.basicConfig(filename=f, ...)\<close> followed by
      \<open>SummaryWriter(log_dir=d)\<close> (lines 66 and 67);
    \<^item> \<open>init_process_group backend url n\<close> is \<open>dist.init_process_group\<close> (line 88);
    \<^item> \<open>build_model\<close> is lines 90 to 102: \<open>FinalNet(args.net_structure)\<close>, loading
      \<^verbatim>\<open>./save_models/new_structure_best.pth\<close> into it, \<open>tsbd.add_graph\<close>, and moving the
      network to the device, wrapped in \<open>DataParallel\<close> when no GPU was chosen;
    \<^item> \<open>uncertain_parameters m\<close> is \<open>model.uncertain_net.parameters()\<close>, with the exception
      the attribute lookup on the (possibly wrapped) network raises, if any;
    \<^item> \<open>adam m v\<close> is \<open>optim.Adam(..., v, betas=(0.7, 0.85))\<close>: the optimizer state and its
      learning rate, or the exception for a value \<open>v\<close> that is no learning rate;
    \<^item> \<open>step_lr r s g k\<close> is the learning rate \<open>StepLR(optimizer, step_size=s, gamma=g)\<close>
      gives an optimizer that started with rate \<open>r\<close> after its \<open>k\<close>-th step;
    \<^item> \<open>carla_data\<close> is \<open>CarlaH5Data()\<close> (line 126), which may raise; the two loaders
      it builds are the parameters of the runners;
    \<^item> \<open>isfile\<close>, \<open>torch_load\<close>, \<open>torch_save\<close> and \<open>copyfile\<close> are \<open>os.path.isfile\<close>,
      \<open>torch.load\<close>, \<open>torch.save\<close> and \<open>shutil.copyfile\<close>.
\<close>

record ('m, 'o, 'fs) system =
  makedirs :: "string \<Rightarrow> 'fs \<Rightarrow> error option \<times> 'fs"
  start_logging :: "string \<Rightarrow> string \<Rightarrow> 'fs \<Rightarrow> error option \<times> 'fs"
  init_process_group :: "pyval \<Rightarrow> pyval \<Rightarrow> int \<Rightarrow> error option"
  build_model :: "args \<Rightarrow> 'fs \<Rightarrow> error + 'm"
  uncertain_parameters :: "'m \<Rightarrow> error option"
  adam :: "'m \<Rightarrow> pyval \<Rightarrow> error + 'o \<times> real"
  step_lr :: "real \<Rightarrow> int \<Rightarrow> real \<Rightarrow> nat \<Rightarrow> real"
  carla_data :: "error option"
  isfile :: "'fs \<Rightarrow> string \<Rightarrow> bool"
  torch_load :: "'fs \<Rightarrow> string \<Rightarrow> error + ('m, 'o) checkpoint"
  torch_save :: "('m, 'o) checkpoint \<Rightarrow> string \<Rightarrow> 'fs \<Rightarrow> error option \<times> 'fs"
  copyfile :: "string \<Rightarrow> string \<Rightarrow> 'fs \<Rightarrow> error option \<times> 'fs"

text \<open>
  \<^verbatim>\<open>
  def save_checkpoint(state, id_, is_best, filename='checkpoint.pth'):
      torch.save(state, filename)
      if is_best:
          shutil.copyfile(
              filename,
              os.path.join("save_models", "{}_best.pth".format(id_))
              )
  \<close>
  An exception of \<open>torch.save\<close> leaves the function before the copy; an exception of the copy
  leaves it with what \<open>torch.save\<close> wrote.
\<close>

definition best_path :: "string \<Rightarrow> string" where
  "best_path run_ident = path_join ''save_models'' (run_ident @ ''_best.pth'')"

definition save_checkpoint ::
  "('m, 'o, 'fs) system \<Rightarrow> ('m, 'o) checkpoint \<Rightarrow> string \<Rightarrow> bool \<Rightarrow> string \<Rightarrow> 'fs
    \<Rightarrow> error option \<times> 'fs" where
  "save_checkpoint sys state run_ident is_best filename fs =
     (case torch_save sys state filename fs of
        (Some e, fs1) \<Rightarrow> (Some e, fs1)
      | (None, fs1) \<Rightarrow>
         (if is_best then copyfile sys filename (best_path run_ident) fs1 else (None, fs1)))"

text \<open>
  In helper.py the \<open>def save_checkpoint\<close> above stands indented inside the body of
  \<open>class AverageMeter\<close>, after \<open>update\<close>: it is an attribute of the class, not a name of the
  module. The names the module \<open>helper\<close> binds are its four imports and the class.
  \<open>from helper import AverageMeter, save_checkpoint\<close> (main.py, line 20) looks the names up
  in order and raises ImportError at the first one the module does not bind.
\<close>

definition helper_names :: "string list" where
  "helper_names = [''os'', ''random'', ''shutil'', ''torch'', ''AverageMeter'']"

fun import_from :: "string list \<Rightarrow> string list \<Rightarrow> error option" where
  "import_from bound [] = None"
| "import_from bound (n # ns) =
     (if n \<in> set bound then import_from bound ns else Some (ImportError n))"

section \<open>The orchestrator (main.py, \<open>main\<close>, lines 57 to 161)\<close>

text \<open>
  The two runners are parameters of the orchestrator, so that its own steps are stated for
  every behaviour of a runner; \<open>script\<close> below passes \<open>train\<close> and \<open>evaluate\<close>. What \<open>main\<close>
  starts from and leaves behind is the file system, the records of the summary writer and
  the lines given to \<open>output_log\<close>. From line 107 on the state is that of the runners
  together with the counter \<open>last_epoch\<close> of the schedule, the best metric and the file
  system.
\<close>

record 'fs env =
  env_files :: 'fs
  env_writer :: "(string \<times> real \<times> int) list"
  env_log :: "string list"

record ('m, 'o, 'fs) run =
  world :: "('m, 'o) world"
  last_epoch :: nat
  best_prec :: pyfloat
  files :: 'fs

record ('m, 'o) runners =
  train_fn :: "args \<Rightarrow> int \<Rightarrow> ('m, 'o) world \<Rightarrow> (error + real \<times> real \<times> real) \<times> ('m, 'o) world"
  eval_fn :: "args \<Rightarrow> int \<Rightarrow> ('m, 'o) world \<Rightarrow> (error + real) \<times> ('m, 'o) world"

definition output_log :: "string \<Rightarrow> ('m, 'o, 'fs) run \<Rightarrow> ('m, 'o, 'fs) run" where
  "output_log msg st = st\<lparr>world := (world st)\<lparr>log_lines := log_lines (world st) @ [msg]\<rparr>\<rparr>"

definition quoted :: "string \<Rightarrow> string" where
  "quoted p = [CHR 0x27] @ p @ [CHR 0x27]"

definition save_weight_dir :: "args \<Rightarrow> string" where
  "save_weight_dir a = path_join ''./save_models'' (run_id a)"

text \<open>
  \<^verbatim>\<open>
  if args.seed is not None:
      random.seed(args.seed)
      torch.manual_seed(args.seed)
      cudnn.deterministic = True
      output_log('You have chosen to seed training.'
                 'This will turn on the CUDNN deterministic setting'
                 'which can slow down your training considerably'
                 'you may see unexpected behavior when restarting'
                 'from checkpoints', logger=logging)
  if args.gpu is not None:
      output_log('You have chosen a specific GPU which will completely disable data parallelism', logger=logging)
  args.distributed = args.world_size > 1  # judgement
  if args.distributed:
      dist.init_process_group(backend=args.dist_backend, init_method=args.dist_url, world_size=args.world_size, rank=0)
  \<close>
\<close>

definition startup_log :: "args \<Rightarrow> string list" where
  "startup_log a =
     (if seed a \<noteq> None then
        [''You have chosen to seed training.''
         @ ''This will turn on the CUDNN deterministic setting''
         @ ''which can slow down your training considerably''
         @ ''you may see unexpected behavior when restarting''
         @ ''from checkpoints'']
      else [])
     @ (if gpu a \<noteq> None then
          [''You have chosen a specific GPU which will completely disable data parallelism'']
        else [])"

definition set_distributed :: "args \<Rightarrow> args" where
  "set_distributed a =
     a\<lparr>extra := (extra a)(''distributed'' \<mapsto> PyNum (if 1 < world_size a then 1 else 0))\<rparr>"

definition distributed_step :: "('m, 'o, 'fs) system \<Rightarrow> args \<Rightarrow> error option" where
  "distributed_step sys a =
     (if 1 < world_size a then
        (case getattr a ''dist_backend'' of
           Inl e \<Rightarrow> Some e
         | Inr backend \<Rightarrow>
            (case getattr a ''dist_url'' of
               Inl e \<Rightarrow> Some e
             | Inr url \<Rightarrow> init_process_group sys backend url (world_size a)))
      else None)"

text \<open>
  \<^verbatim>\<open>
  if args.resume:
      args.resume = os.path.join(save_weight_dir, args.resume)
      if os.path.isfile(args.resume):
          output_log("=> loading checkpoint'{}'".format(args.resume), logging)
          checkpoint = torch.load(args.resume)
          args.start_epoch = checkpoint['epoch']
          model.load_state_dict(checkpoint['state_dict'])
          optimizer.load_state_dict(checkpoint['optimizer'])
          lr_scheduler.load_state_dict(checkpoint['scheduler'])
          best_prec = checkpoint['best_prec']
          output_log("=> loaded checkpoint'{}'".format(args.resume), logging)
      else:
          output_log("=> no checkpoint found at '{}'".format(args.resume), logging)
  \<close>
  \<open>torch_load\<close> gives the five entries these lines read, or the exception of \<open>torch.load\<close> or
  of the first of these lines that raises on what it loaded.
\<close>

definition resume_step ::
  "('m, 'o, 'fs) system \<Rightarrow> string \<Rightarrow> args \<Rightarrow> ('m, 'o, 'fs) run
    \<Rightarrow> error option \<times> args \<times> ('m, 'o, 'fs) run" where
  "resume_step sys swd a st =
     (if resume a \<noteq> [] then
        (let a1 = a\<lparr>resume := path_join swd (resume a)\<rparr>
         in if isfile sys (files st) (resume a1) then
              (let st1 = output_log (''=> loading checkpoint'' @ quoted (resume a1)) st
               in case torch_load sys (files st1) (resume a1) of
                    Inl e \<Rightarrow> (Some e, a1, st1)
                  | Inr ck \<Rightarrow>
                     (let st2 = st1\<lparr>world := (world st1)\<lparr>model := ck_state_dict ck,
                                       optimizer := fst (ck_optimizer ck),
                                       lr := snd (ck_optimizer ck)\<rparr>,
                                     last_epoch := ck_scheduler ck,
                                     best_prec := ck_best_prec ck\<rparr>
                      in (None, a1\<lparr>start_epoch := ck_epoch ck\<rparr>,
                          output_log (''=> loaded checkpoint'' @ quoted (resume a1)) st2)))
            else (None, a1, output_log (''=> no checkpoint found at '' @ quoted (resume a1)) st))
      else (None, a, st))"

text \<open>
  \<^verbatim>\<open>
  if args.evaluate:
      args.id = args.id + "_test"
      if not os.path.isfile(args.resume):
          output_log("=> no checkpoint found at '{}'".format(args.resume), logging)
          return
      if args.evaluate_log =="":
          output_log("=> please set evaluate log path with --evaluate-log<log-path>")
      evaluate(eval_loader, model, criterion, 0, tsbd)
      return
  \<close>
\<close>

definition evaluate_only ::
  "('m, 'o, 'fs) system \<Rightarrow> ('m, 'o) runners \<Rightarrow> args \<Rightarrow> ('m, 'o, 'fs) run
    \<Rightarrow> error option \<times> ('m, 'o, 'fs) run" where
  "evaluate_only sys rs a st =
     (let a1 = a\<lparr>run_id := run_id a @ ''_test''\<rparr>
      in if \<not> isfile sys (files st) (resume a1) then
           (None, output_log (''=> no checkpoint found at '' @ quoted (resume a1)) st)
         else
           (case getattr a1 ''evaluate_log'' of
              Inl e \<Rightarrow> (Some e, st)
            | Inr v \<Rightarrow>
               (let st1 = (if v = PyStr [] then
                             output_log ''=> please set evaluate log path with --evaluate-log<log-path>'' st
                           else st)
                in case eval_fn rs a1 0 (world st1) of
                     (Inl e, w') \<Rightarrow> (Some e, st1\<lparr>world := w'\<rparr>)
                   | (Inr prec, w') \<Rightarrow> (None, st1\<lparr>world := w'\<rparr>))))"

text \<open>
  \<^verbatim>\<open>
  for epoch in range(args.start_epoch, args.epochs):   # (0,90)
      lr_scheduler.step()         # lr_scheduler needs to step when using
      branch_losses, speed_losses, losses = train(train_loader, model, criterion, optimizer, epoch, tsbd)
      prec = evaluate(eval_loader, model, criterion, epoch, tsbd)
      # rememeber best prec@1 and save checkpoint
      is_best = prec < best_prec
      best_prec = min(prec, best_prec)
      save_checkpoint(
          {'epoch': epoch+1,
           'state_dict': model.state_dict(),
           'best_prec': best_prec,
           'scheduler': lr_scheduler.state_dict(),
           'optimizer': optimizer.state_dict()},
          args.id,
          is_best,
          os.path.join(save_weight_dir, "{}_{}.pth".format(epoch+1, args.id))
      )
  \<close>
  \<open>schedule k\<close> is the learning rate the schedule gives the optimizer at its \<open>k\<close>-th step.
\<close>

definition epoch_file :: "string \<Rightarrow> args \<Rightarrow> int \<Rightarrow> string" where
  "epoch_file swd a epoch = path_join swd (str_int (epoch + 1) @ ''_'' @ run_id a @ ''.pth'')"

definition epoch_body ::
  "('m, 'o, 'fs) system \<Rightarrow> ('m, 'o) runners \<Rightarrow> (nat \<Rightarrow> real) \<Rightarrow> string \<Rightarrow> args \<Rightarrow> int
    \<Rightarrow> ('m, 'o, 'fs) run \<Rightarrow> error option \<times> ('m, 'o, 'fs) run" where
  "epoch_body sys rs schedule swd a epoch st =
     (let k = Suc (last_epoch st);
          w1 = (world st)\<lparr>lr := schedule k\<rparr>;
          st1 = st\<lparr>world := w1, last_epoch := k\<rparr>
      in case train_fn rs a epoch w1 of
           (Inl e, w2) \<Rightarrow> (Some e, st1\<lparr>world := w2\<rparr>)
         | (Inr tr, w2) \<Rightarrow>
            (case eval_fn rs a epoch w2 of
               (Inl e, w3) \<Rightarrow> (Some e, st1\<lparr>world := w3\<rparr>)
             | (Inr prec, w3) \<Rightarrow>
                (let is_best = lt_best prec (best_prec st1);
                     best = py_min prec (best_prec st1);
                     state = \<lparr>ck_epoch = epoch + 1, ck_state_dict = model w3,
                              ck_best_prec = best, ck_scheduler = k,
                              ck_optimizer = (optimizer w3, lr w3)\<rparr>;
                     filename = epoch_file swd a epoch;
                     st3 = st1\<lparr>world := w3, best_prec := best\<rparr>
                 in case save_checkpoint sys state (run_id a) is_best filename (files st3) of
                      (r, fs') \<Rightarrow> (r, st3\<lparr>files := fs'\<rparr>))))"

fun main_loop ::
  "('m, 'o, 'fs) system \<Rightarrow> ('m, 'o) runners \<Rightarrow> (nat \<Rightarrow> real) \<Rightarrow> string \<Rightarrow> args \<Rightarrow> int list
    \<Rightarrow> ('m, 'o, 'fs) run \<Rightarrow> error option \<times> ('m, 'o, 'fs) run" where
  "main_loop sys rs schedule swd a [] st = (None, st)"
| "main_loop sys rs schedule swd a (epoch # es) st =
     (case epoch_body sys rs schedule swd a epoch st of
        (Some e, st') \<Rightarrow> (Some e, st')
      | (None, st') \<Rightarrow> main_loop sys rs schedule swd a es st')"

text \<open>
  Lines 110 to 161: the resume step, the data set, and then either the evaluation-only run
  or the epochs of \<open>range(args.start_epoch, args.epochs)\<close>.
\<close>

definition main_body ::
  "('m, 'o, 'fs) system \<Rightarrow> ('m, 'o) runners \<Rightarrow> (nat \<Rightarrow> real) \<Rightarrow> args \<Rightarrow> ('m, 'o, 'fs) run
    \<Rightarrow> error option \<times> ('m, 'o, 'fs) run" where
  "main_body sys rs schedule a st =
     (let swd = save_weight_dir a
      in case resume_step sys swd a st of
           (Some e, a1, st1) \<Rightarrow> (Some e, st1)
         | (None, a1, st1) \<Rightarrow>
            (case carla_data sys of
               Some e \<Rightarrow> (Some e, st1)
             | None \<Rightarrow>
                (if evaluate_flag a1 then evaluate_only sys rs a1 st1
                 else main_loop sys rs schedule swd a1 [start_epoch a1 .. epochs a1 - 1] st1)))"

text \<open>
  \<^verbatim>\<open>
  def main():
      global args
      args = parser.parse_args()
      log_dir = os.path.join("./", "logs", args.id)
      run_dir = os.path.join("./", "runs", args.id)
      save_weight_dir = os.path.join("./save_models", args.id)
      os.makedirs(log_dir)
      os.makedirs(save_weight_dir)
      logging.basicConfig(filename=os.path.join(log_dir, "carla_training.log"), level=logging.ERROR)
      tsbd = SummaryWriter(log_dir=run_dir)
      ...
      optimizer = optim.Adam(model.uncertain_net.parameters(), args.lr, betas=(0.7, 0.85))
      # the adjustment of the lr
      lr_scheduler = optim.lr_scheduler.StepLR(optimizer, step_size=args.lr_step, gamma=args.lr_gamma)
      best_prec = math.inf
  \<close>
  \<open>startup\<close> is lines 57 to 102, up to the network on its device. The arguments of
  \<open>optim.Adam\<close> are evaluated from left to right: \<open>model.uncertain_net.parameters()\<close>, then
  \<open>args.lr\<close>. The result of \<open>main\<close> is the exception it raised, if any, with what it left
  behind.
\<close>

definition env_of :: "('m, 'o, 'fs) run \<Rightarrow> 'fs env" where
  "env_of st = \<lparr>env_files = files st, env_writer = writer (world st), env_log = log_lines (world st)\<rparr>"

definition startup ::
  "('m, 'o, 'fs) system \<Rightarrow> args \<Rightarrow> 'fs env \<Rightarrow> (error + args \<times> 'm) \<times> 'fs env" where
  "startup sys a ev =
     (let log_dir = path_join (path_join ''./'' ''logs'') (run_id a);
          run_dir = path_join (path_join ''./'' ''runs'') (run_id a)
      in case makedirs sys log_dir (env_files ev) of
           (Some e, f1) \<Rightarrow> (Inl e, ev\<lparr>env_files := f1\<rparr>)
         | (None, f1) \<Rightarrow>
      (case makedirs sys (save_weight_dir a) f1 of
           (Some e, f2) \<Rightarrow> (Inl e, ev\<lparr>env_files := f2\<rparr>)
         | (None, f2) \<Rightarrow>
      (case start_logging sys (path_join log_dir ''carla_training.log'') run_dir f2 of
           (Some e, f3) \<Rightarrow> (Inl e, ev\<lparr>env_files := f3\<rparr>)
         | (None, f3) \<Rightarrow>
      (let ev1 = ev\<lparr>env_files := f3, env_log := env_log ev @ startup_log a\<rparr>;
           a1 = set_distributed a
       in case distributed_step sys a1 of
            Some e \<Rightarrow> (Inl e, ev1)
          | None \<Rightarrow>
      (case build_model sys a1 f3 of
            Inl e \<Rightarrow> (Inl e, ev1)
          | Inr m \<Rightarrow> (Inr (a1, m), ev1))))))"

definition main ::
  "('m, 'o, 'fs) system \<Rightarrow> ('m, 'o) runners \<Rightarrow> args \<Rightarrow> 'fs env \<Rightarrow> error option \<times> 'fs env" where
  "main sys rs a ev =
     (case startup sys a ev of
        (Inl e, ev1) \<Rightarrow> (Some e, ev1)
      | (Inr (a1, m), ev1) \<Rightarrow>
         (case uncertain_parameters sys m of
            Some e \<Rightarrow> (Some e, ev1)
          | None \<Rightarrow>
         (case getattr a1 ''lr'' of
            Inl e \<Rightarrow> (Some e, ev1)
          | Inr v \<Rightarrow>
         (case adam sys m v of
            Inl e \<Rightarrow> (Some e, ev1)
          | Inr (opt, rate) \<Rightarrow>
         (let st = \<lparr>world = \<lparr>model = m, optimizer = opt, lr = rate, writer = env_writer ev1,
                             log_lines = env_log ev1\<rparr>,
                    last_epoch = 0, best_prec = PInf, files = env_files ev1\<rparr>
          in case main_body sys rs (step_lr sys rate (lr_step a1) (lr_gamma a1)) a1 st of
               (r, st') \<Rightarrow> (r, env_of st'))))))"

text \<open>
  Running the file main.py: line 20 imports \<open>AverageMeter\<close> and \<open>save_checkpoint\<close> from
  \<open>helper\<close>, and the last lines call \<open>main()\<close>, whose runners are \<open>train\<close> and \<open>evaluate\<close> on
  the two loaders.
\<close>

definition script ::
  "('m, 'o, 'fs) system \<Rightarrow> ('m, 'o, 'i) net \<Rightarrow> 'i batch list \<Rightarrow> 'i batch list \<Rightarrow> args \<Rightarrow> 'fs env
    \<Rightarrow> error option \<times> 'fs env" where
  "script sys nt train_loader eval_loader a ev =
     (case import_from helper_names [''AverageMeter'', ''save_checkpoint''] of
        Some e \<Rightarrow> (Some e, ev)
      | None \<Rightarrow>
         main sys \<lparr>train_fn = (\<lambda>a' epoch w. train a' nt train_loader epoch w),
                   eval_fn = (\<lambda>a' epoch w. evaluate a' nt eval_loader epoch w)\<rparr> a ev)"

section \<open>Properties of the metric accumulator\<close>

lemma ebind_Inr [simp]: "ebind (Inr x) f = f x"
  by (simp add: ebind_def)

lemma ebind_Inl [simp]: "ebind (Inl e) f = Inl e"
  by (simp add: ebind_def)

lemma ebind_eq_Inr: "ebind m f = Inr y \<longleftrightarrow> (\<exists>x. m = Inr x \<and> f x = Inr y)"
  by (cases m) simp_all

lemma updates_general:
  assumes "list_all (\<lambda>(v, w). 0 < w) xs" and "0 \<le> count_m m" and "xs \<noteq> []"
  shows "updates m xs =
    Inr \<lparr>val = fst (last xs),
         avg = (sum_m m + (\<Sum>(v, w)\<leftarrow>xs. v * w)) / (count_m m + (\<Sum>(v, w)\<leftarrow>xs. w)),
         sum_m = sum_m m + (\<Sum>(v, w)\<leftarrow>xs. v * w),
         count_m = count_m m + (\<Sum>(v, w)\<leftarrow>xs. w)\<rparr>"
  using assms
proof (induction xs arbitrary: m)
  case Nil
  then show ?case by simp
next
  case (Cons x xs)
  obtain v w where x: "x = (v, w)" by (cases x)
  from Cons.prems x have w: "0 < w" and rest: "list_all (\<lambda>(v, w). 0 < w) xs" by simp_all
  from w Cons.prems(2) have c: "count_m m + w \<noteq> 0" by linarith
  define m' where "m' = \<lparr>val = v, avg = (sum_m m + v * w) / (count_m m + w),
    sum_m = sum_m m + v * w, count_m = count_m m + w\<rparr>"
  have u: "update m v w = Inr m'"
    using c by (simp add: update_def m'_def Let_def)
  show ?case
  proof (cases "xs = []")
    case True
    then show ?thesis using u x by (simp add: m'_def)
  next
    case False
    have "0 \<le> count_m m'" using w Cons.prems(2) by (simp add: m'_def)
    from Cons.IH [OF rest this False] show ?thesis
      using u x False by (simp add: m'_def add.assoc)
  qed
qed

text \<open>
  C7. \<open>reset\<close> sets value, sum and count (and the average) to zero; after any non-empty
  sequence of \<open>update(value, weight)\<close> calls from reset, every weight positive, no call
  raises, \<open>avg\<close> is the weighted mean, \<open>val\<close> the last value, \<open>sum\<close> the weighted sum and
  \<open>count\<close> the sum of the weights. (After the empty sequence the meter is still reset.)
\<close>

theorem meter_weighted_mean:
  "reset = \<lparr>val = 0, avg = 0, sum_m = 0, count_m = 0\<rparr> \<and>
   updates reset [] = Inr reset \<and>
   (list_all (\<lambda>(v, w). 0 < w) xs \<and> xs \<noteq> [] \<longrightarrow>
      updates reset xs =
        Inr \<lparr>val = fst (last xs),
             avg = (\<Sum>(v, w)\<leftarrow>xs. v * w) / (\<Sum>(v, w)\<leftarrow>xs. w),
             sum_m = (\<Sum>(v, w)\<leftarrow>xs. v * w),
             count_m = (\<Sum>(v, w)\<leftarrow>xs. w)\<rparr>)"
proof (intro conjI impI)
  show "reset = \<lparr>val = 0, avg = 0, sum_m = 0, count_m = 0\<rparr>" by (simp add: reset_def)
  show "updates reset [] = Inr reset" by simp
next
  assume a: "list_all (\<lambda>(v, w). 0 < w) xs \<and> xs \<noteq> []"
  have "0 \<le> count_m reset" by (simp add: reset_def)
  from updates_general [of xs reset] a this
  show "updates reset xs =
        Inr \<lparr>val = fst (last xs),
             avg = (\<Sum>(v, w)\<leftarrow>xs. v * w) / (\<Sum>(v, w)\<leftarrow>xs. w),
             sum_m = (\<Sum>(v, w)\<leftarrow>xs. v * w),
             count_m = (\<Sum>(v, w)\<leftarrow>xs. w)\<rparr>"
    by (simp add: reset_def)
qed

theorem meter_weighted_mean_witness:
  "list_all (\<lambda>(v, w). 0 < w) [(2, 1), (4, 3 :: real)] \<and> [(2, 1), (4, 3 :: real)] \<noteq> [] \<and>
   updates reset [(2, 1), (4, 3)] = Inr \<lparr>val = 4, avg = 7 / 2, sum_m = 14, count_m = 4\<rparr>"
  using meter_weighted_mean [of "[(2, 1), (4, 3)]"] by simp

section \<open>Broadcasting and tensor operations\<close>


lemma bdim_Some_iff: "bdim a b = Some r \<longleftrightarrow> (a = r \<or> a = 1) \<and> (b = r \<or> b = 1) \<and> (r = a \<or> r = b)"
  by (auto simp: bdim_def)

lemma bdim_None_iff: "bdim a b = None \<longleftrightarrow> a \<noteq> b \<and> a \<noteq> 1 \<and> b \<noteq> 1"
  by (auto simp: bdim_def)

lemma pick_absorb: "bdim a b = Some r \<Longrightarrow> pick a (pick r i) = pick a i \<and> pick b (pick r i) = pick b i"
  by (auto simp: bdim_def pick_def split: if_splits)

lemma pick_in_range: "i < n \<Longrightarrow> pick n i = i"
  by (auto simp: pick_def)

lemma entry_tmap [simp]: "entry (tmap f a) i j = f (entry a i j)"
  by (simp add: entry_def tmap_def)

lemma entry_tmap_fun: "entry (tmap f a) = (\<lambda>i j. f (entry a i j))"
  by (intro ext) simp

lemma shape_tmap [simp]: "nrows (tmap f a) = nrows a" "ncols (tmap f a) = ncols a"
  by (simp_all add: tmap_def)

lemma tmap2_Inr:
  assumes "tmap2 f a b = Inr t"
  shows "bdim (nrows a) (nrows b) = Some (nrows t)" "bdim (ncols a) (ncols b) = Some (ncols t)"
    "entry t i j = f (entry a i j) (entry b i j)"
proof -
  from assms obtain r c where r: "bdim (nrows a) (nrows b) = Some r"
    and c: "bdim (ncols a) (ncols b) = Some c"
    and t: "t = \<lparr>nrows = r, ncols = c, elem = (\<lambda>i j. f (entry a i j) (entry b i j))\<rparr>"
    by (auto simp: tmap2_def split: option.splits)
  show "bdim (nrows a) (nrows b) = Some (nrows t)" "bdim (ncols a) (ncols b) = Some (ncols t)"
    using r c t by simp_all
  show "entry t i j = f (entry a i j) (entry b i j)"
    using pick_absorb [OF r, of i] pick_absorb [OF c, of j]
    by (simp add: t entry_def)
qed

lemma tmap2_Inl: "tmap2 f a b = Inl e \<Longrightarrow>
  e = RuntimeError \<and> (bdim (nrows a) (nrows b) = None \<or> bdim (ncols a) (ncols b) = None)"
  by (auto simp: tmap2_def split: option.splits)

lemma tmap2_defined:
  "bdim (nrows a) (nrows b) = Some r \<Longrightarrow> bdim (ncols a) (ncols b) = Some c \<Longrightarrow>
   \<exists>t. tmap2 f a b = Inr t"
  by (simp add: tmap2_def)

lemma mean_entry:
  "mean a = (if nrows a * ncols a = 0 then Inl NaN
     else Inr ((\<Sum>i<nrows a. \<Sum>j<ncols a. entry a i j) / real (nrows a * ncols a)))"
  by (simp add: mean_def entry_def pick_in_range)


lemma bdim_comm: "bdim a b = bdim b a"
  by (auto simp: bdim_def)

lemma bdim_one [simp]: "bdim a 1 = Some a" "bdim a (Suc 0) = Some a"
  by (auto simp: bdim_def)

lemma bdim_assoc:
  "(case bdim a b of None \<Rightarrow> None | Some r \<Rightarrow> bdim r c) =
   (case bdim b c of None \<Rightarrow> None | Some r \<Rightarrow> bdim a r)"
  by (auto simp: bdim_def split: option.splits if_splits)

lemma obdim_simps [simp]:
  "obdim (Some a) (Some b) = bdim a b" "obdim None y = None" "obdim x None = None"
  by (simp_all add: obdim_def split: option.splits)

lemma obdim_comm: "obdim x y = obdim y x"
  by (cases x; cases y) (simp_all add: bdim_comm)

lemma obdim_assoc: "obdim (obdim x y) z = obdim x (obdim y z)"
proof (cases x; cases y; cases z)
  fix a b c assume "x = Some a" "y = Some b" "z = Some c"
  then show ?thesis using bdim_assoc [where a=a and b=b and c=c] by (auto simp: obdim_def split: option.splits)
qed simp_all

lemma obdim_unit [simp]: "obdim x (Some 1) = x" "obdim x (Some (Suc 0)) = x"
  by (cases x; simp add: obdim_def)+

lemma obdim_left_comm: "obdim x (obdim y z) = obdim y (obdim x z)"
  by (metis obdim_assoc obdim_comm)

lemma bdim_idem [simp]: "bdim a a = Some a"
  by (simp add: bdim_def)

lemma obdim_idem: "obdim x x = x"
  by (cases x) simp_all

lemma obdim_left_idem: "obdim x (obdim x y) = obdim x y"
  by (metis obdim_assoc obdim_idem)

lemma obdim_case: "(case bdim a b of None \<Rightarrow> None | Some r \<Rightarrow> f r) = (case obdim (Some a) (Some b) of None \<Rightarrow> None | Some r \<Rightarrow> f r)"
  by simp

lemma bdims_chain5:
  "bdims [a, b, c, d, e] = obdim (obdim (obdim (Some c) (obdim (Some a) (Some b))) (Some d)) (Some e)"
  by (simp del: obdim_simps add: obdim_assoc obdim_comm obdim_left_comm) 

lemma bdims_chain3:
  "bdims [a, b, c] = obdim (obdim (Some c) (obdim (Some a) (Some b))) (Some c)"
  by (simp del: obdim_simps add: obdim_assoc obdim_comm obdim_left_comm obdim_idem obdim_left_idem)

lemma mean_of_None [simp]: "mean_of None co g = Inl RuntimeError" "mean_of ro None g = Inl RuntimeError"
  by (simp_all add: mean_of_def split: option.splits)

lemma mean_mean_of: "mean t = mean_of (Some (nrows t)) (Some (ncols t)) (entry t)"
  by (simp add: mean_entry mean_of_def)

lemma ebind_tmap2_view:
  assumes k: "\<And>t. k t = K (Some (nrows t)) (Some (ncols t)) (entry t)"
    and r: "\<And>co g. K None co g = Inl RuntimeError"
    and c: "\<And>ro g. K ro None g = Inl RuntimeError"
  shows "ebind (tmap2 f a b) k =
    K (bdim (nrows a) (nrows b)) (bdim (ncols a) (ncols b)) (\<lambda>i j. f (entry a i j) (entry b i j))"
proof (cases "tmap2 f a b")
  case (Inl e)
  from tmap2_Inl [OF Inl] show ?thesis using Inl r c by auto
next
  case (Inr t)
  have "entry t = (\<lambda>i j. f (entry a i j) (entry b i j))"
    by (intro ext) (rule tmap2_Inr(3) [OF Inr])
  then show ?thesis
    using Inr tmap2_Inr(1,2) [OF Inr] k [of t] by simp
qed

lemma obdim_chain5:
  "obdim (obdim (obdim (Some c) (bdim a b)) (Some d)) (Some e) = bdims [a, b, c, d, e]"
  by (simp del: obdim_simps add: obdim_simps(1) [symmetric] obdim_assoc obdim_comm obdim_left_comm)

lemma obdim_chain3:
  "obdim (obdim (Some c) (bdim a b)) (Some c) = bdims [a, b, c]"
  by (simp del: obdim_simps add: obdim_simps(1) [symmetric] obdim_assoc obdim_comm obdim_left_comm
      obdim_idem obdim_left_idem)

lemma bdims_Some_iff:
  "bdims ds = Some r \<longleftrightarrow> (\<forall>d\<in>set ds. d = r \<or> d = 1) \<and> (r = 1 \<or> r \<in> set ds)"
proof (induction ds arbitrary: r)
  case Nil
  then show ?case by auto
next
  case (Cons d ds)
  show ?case
  proof (cases "bdims ds")
    case None
    then have "\<not> ((\<forall>d\<in>set ds. d = r' \<or> d = 1) \<and> (r' = 1 \<or> r' \<in> set ds))" for r'
      using Cons.IH [of r'] by simp
    then show ?thesis using None 
      by (auto simp del: One_nat_def) (metis)+
  next
    case (Some r')
    then have r': "(\<forall>d\<in>set ds. d = r' \<or> d = 1) \<and> (r' = 1 \<or> r' \<in> set ds)"
      using Cons.IH [of r'] by simp
    show ?thesis using Some r'
      by (auto simp: bdim_Some_iff simp del: One_nat_def) 
  qed
qed

lemma bdims_sub:
  assumes "bdims ds = Some r" and "set ds' \<subseteq> set ds"
  shows "\<exists>r3. bdims ds' = Some r3 \<and> (r3 = r \<or> r3 = 1)"
proof (cases "r \<in> set ds'")
  case True
  then have "bdims ds' = Some r" using assms by (auto simp: bdims_Some_iff)
  then show ?thesis by simp
next
  case False
  then have "bdims ds' = Some 1" using assms by (auto simp: bdims_Some_iff)
  then show ?thesis by simp
qed

lemma bdims_mem: "bdims ds = Some r \<Longrightarrow> d \<in> set ds \<Longrightarrow> d = r \<or> d = 1"
  by (auto simp: bdims_Some_iff)

lemma pick_pick: "n = r \<or> n = 1 \<Longrightarrow> pick n (pick r i) = pick n i"
  by (auto simp: pick_def)

lemma pick_less: "n = r \<or> n = 1 \<Longrightarrow> i < r \<Longrightarrow> pick n i < n"
  by (auto simp: pick_def)

lemma sum_pick:
  assumes "r3 = r \<or> r3 = 1" and "r \<noteq> 0"
  shows "(\<Sum>i<r. h (pick r3 i)) / real r = (\<Sum>i<r3. h i) / real r3"
proof (cases "r3 = 1")
  case True
  then show ?thesis using assms by (simp add: pick_def)
next
  case False
  then have "r3 = r" using assms by simp
  then show ?thesis by (simp add: pick_in_range)
qed

lemma mean_of_expand:
  assumes r: "r3 = r \<or> r3 = 1" and c: "c3 = c \<or> c3 = 1" and ne: "r * c \<noteq> 0"
    and f: "\<And>i j. f i j = f (pick r3 i) (pick c3 j)"
  shows "mean_of (Some r3) (Some c3) f = mean_of (Some r) (Some c) f"
proof -
  from ne have r0: "r \<noteq> 0" and c0: "c \<noteq> 0" by simp_all
  from r c r0 c0 have ne3: "r3 * c3 \<noteq> 0" by auto
  have "(\<Sum>i<r. \<Sum>j<c. f i j) / real (r * c) = (\<Sum>i<r. (\<Sum>j<c. f (pick r3 i) (pick c3 j)) / real c) / real r"
    by (subst f) (simp add: sum_divide_distrib mult.commute)
  also have "\<dots> = (\<Sum>i<r. (\<Sum>j<c3. f (pick r3 i) j) / real c3) / real r"
    using sum_pick [OF c c0] by simp
  also have "\<dots> = (\<Sum>i<r3. (\<Sum>j<c3. f i j) / real c3) / real r3"
    using sum_pick [OF r r0, of "\<lambda>i. (\<Sum>j<c3. f i j) / real c3"] by simp
  also have "\<dots> = (\<Sum>i<r3. \<Sum>j<c3. f i j) / real (r3 * c3)"
    by (simp add: sum_divide_distrib mult.commute)
  finally show ?thesis using ne ne3 by (simp add: mean_of_def)
qed

lemma criterion_view:
  "criterion a b = mean_of (bdim (nrows a) (nrows b)) (bdim (ncols a) (ncols b))
     (\<lambda>i j. (entry a i j - entry b i j) ^ 2)"
proof -
  define K where "K = (\<lambda>ro co g. mean_of ro co (\<lambda>i j. (g i j :: real) ^ 2))"
  have k: "mean (tmap (\<lambda>x. x ^ 2) t) = K (Some (nrows t)) (Some (ncols t)) (entry t)" for t
    by (simp add: mean_mean_of K_def entry_tmap_fun)
  have KN: "K None co g = Inl RuntimeError" "K ro None g = Inl RuntimeError" for ro co g
    by (simp_all add: K_def)
  show ?thesis
    unfolding criterion_def
    by (subst ebind_tmap2_view [where K = K, OF k KN]) (simp add: K_def)
qed

lemma obdim_chain3_simple: "obdim (bdim a b) (Some c) = bdims [a, b, c]"
  by (simp del: obdim_simps add: obdim_simps(1) [symmetric] obdim_assoc obdim_comm obdim_left_comm)

lemma simple_branch_view:
  "ebind (tmap2 (*) branches_out mask_t) (\<lambda>masked. criterion masked target) =
   mean_of (bdims [nrows branches_out, nrows mask_t, nrows target])
     (bdims [ncols branches_out, ncols mask_t, ncols target])
     (\<lambda>i j. (entry branches_out i j * entry mask_t i j - entry target i j) ^ 2)"
proof -
  define K where "K = (\<lambda>ro co g. mean_of (obdim ro (Some (nrows target))) (obdim co (Some (ncols target)))
     (\<lambda>i j. (g i j - entry target i j) ^ 2))"
  have k: "criterion t target = K (Some (nrows t)) (Some (ncols t)) (entry t)" for t
    by (simp add: criterion_view K_def)
  have KN: "K None co g = Inl RuntimeError" "K ro None g = Inl RuntimeError" for ro co g
    by (simp_all add: K_def)
  show ?thesis
    by (subst ebind_tmap2_view [where K = K, OF k KN]) (simp only: K_def obdim_chain3_simple)
qed

lemma entry_zero:
  assumes "zero_tensor a" and "nrows a = r \<or> nrows a = 1" and "ncols a = c \<or> ncols a = 1"
    and "i < r" and "j < c"
  shows "entry a i j = 0"
  using assms pick_less [of "nrows a" r i] pick_less [of "ncols a" c j]
  by (simp add: zero_tensor_def entry_def)

lemma entry_pick:
  assumes "nrows a = r \<or> nrows a = 1" and "ncols a = c \<or> ncols a = 1"
  shows "entry a (pick r i) (pick c j) = entry a i j"
  using assms by (simp add: entry_def pick_pick)

section \<open>The loss computations against the formulas of the specification\<close>

lemma branch_pipeline:
  "ebind (train_branch_square branches_out target)
     (\<lambda>sq. train_branch_loss sq log_var_control log_var_speed mask_t) =
   spec_branch_loss branches_out target log_var_control log_var_speed mask_t"
proof -
  define K4 where "K4 = (\<lambda>ro co g. ebind (mean_of ro co g) (\<lambda>m. Inr (m * 4)))"
  define k4 where "k4 = (\<lambda>t3. ebind (mean t3) (\<lambda>m. Inr (m * 4)))"
  have k4: "k4 t = K4 (Some (nrows t)) (Some (ncols t)) (entry t)" for t
    by (simp add: mean_mean_of k4_def K4_def)
  have K4N: "K4 None co g = Inl RuntimeError" "K4 ro None g = Inl RuntimeError" for ro co g
    by (simp_all add: K4_def)
  define K3 where "K3 = (\<lambda>ro co g. K4 (obdim ro (Some (nrows mask_t))) (obdim co (Some (ncols mask_t)))
     (\<lambda>i j. g i j * 0.5 * entry mask_t i j))"
  define k3 where "k3 = (\<lambda>t2. ebind (tmap2 (*) (tmap (\<lambda>x. x * 0.5) t2) mask_t) k4)"
  have k3: "k3 t = K3 (Some (nrows t)) (Some (ncols t)) (entry t)" for t
    unfolding k3_def K3_def
    by (subst ebind_tmap2_view [where K = K4, OF k4 K4N]) simp
  have K3N: "K3 None co g = Inl RuntimeError" "K3 ro None g = Inl RuntimeError" for ro co g
    by (simp_all add: K3_def K4N)
  define K2 where "K2 = (\<lambda>ro co g. K3 (obdim ro (Some (nrows log_var_speed)))
     (obdim co (Some (ncols log_var_speed))) (\<lambda>i j. g i j + entry log_var_speed i j))"
  define k2 where "k2 = (\<lambda>t1. ebind (tmap2 (+) t1 log_var_speed) k3)"
  have k2: "k2 t = K2 (Some (nrows t)) (Some (ncols t)) (entry t)" for t
    unfolding k2_def K2_def
    by (subst ebind_tmap2_view [where K = K3, OF k3 K3N]) simp
  have K2N: "K2 None co g = Inl RuntimeError" "K2 ro None g = Inl RuntimeError" for ro co g
    by (simp_all add: K2_def K3N)
  define K1 where "K1 = (\<lambda>ro co g. K2 (obdim (Some (nrows log_var_control)) ro)
     (obdim (Some (ncols log_var_control)) co) (\<lambda>i j. exp (- entry log_var_control i j) * (g i j) ^ 2))"
  define k1 where "k1 = (\<lambda>d. ebind (tmap2 (*) (tmap exp (tmap uminus log_var_control)) (tmap (\<lambda>x. x ^ 2) d)) k2)"
  have k1: "k1 t = K1 (Some (nrows t)) (Some (ncols t)) (entry t)" for t
    unfolding k1_def K1_def
    by (subst ebind_tmap2_view [where K = K2, OF k2 K2N]) simp
  have K1N: "K1 None co g = Inl RuntimeError" "K1 ro None g = Inl RuntimeError" for ro co g
    by (simp_all add: K1_def K2N)
  have lhs: "ebind (train_branch_square branches_out target)
     (\<lambda>sq. train_branch_loss sq log_var_control log_var_speed mask_t) =
     ebind (tmap2 (-) branches_out target) k1"
    by (cases "tmap2 (-) branches_out target")
      (simp_all add: train_branch_square_def train_branch_loss_def k1_def k2_def k3_def k4_def)
  show ?thesis
    unfolding lhs
    apply (subst ebind_tmap2_view [where K = K1, OF k1 K1N])
    by (simp only: K1_def K2_def K3_def K4_def spec_branch_loss_def obdim_chain5 Let_def list.map)
qed

lemma speed_pipeline:
  "ebind (train_branch_square pred_speed speed) (\<lambda>sq. train_speed_loss sq log_var_speed) =
   spec_speed_loss pred_speed speed log_var_speed"
proof -
  define K3 where "K3 = (\<lambda>ro co g. mean_of ro co (\<lambda>i j. g i j * 0.5))"
  define k3 where "k3 = (\<lambda>t2. mean (tmap (\<lambda>x. x * 0.5) t2))"
  have k3: "k3 t = K3 (Some (nrows t)) (Some (ncols t)) (entry t)" for t
    by (simp add: mean_mean_of k3_def K3_def entry_tmap_fun)
  have K3N: "K3 None co g = Inl RuntimeError" "K3 ro None g = Inl RuntimeError" for ro co g
    by (simp_all add: K3_def)
  define K2 where "K2 = (\<lambda>ro co g. K3 (obdim ro (Some (nrows log_var_speed)))
     (obdim co (Some (ncols log_var_speed))) (\<lambda>i j. g i j + entry log_var_speed i j))"
  define k2 where "k2 = (\<lambda>t1. ebind (tmap2 (+) t1 log_var_speed) k3)"
  have k2: "k2 t = K2 (Some (nrows t)) (Some (ncols t)) (entry t)" for t
    unfolding k2_def K2_def
    by (subst ebind_tmap2_view [where K = K3, OF k3 K3N]) simp
  have K2N: "K2 None co g = Inl RuntimeError" "K2 ro None g = Inl RuntimeError" for ro co g
    by (simp_all add: K2_def K3N)
  define K1 where "K1 = (\<lambda>ro co g. K2 (obdim (Some (nrows log_var_speed)) ro)
     (obdim (Some (ncols log_var_speed)) co) (\<lambda>i j. exp (- entry log_var_speed i j) * (g i j) ^ 2))"
  define k1 where "k1 = (\<lambda>d. ebind (tmap2 (*) (tmap exp (tmap uminus log_var_speed)) (tmap (\<lambda>x. x ^ 2) d)) k2)"
  have k1: "k1 t = K1 (Some (nrows t)) (Some (ncols t)) (entry t)" for t
    unfolding k1_def K1_def
    by (subst ebind_tmap2_view [where K = K2, OF k2 K2N]) simp
  have K1N: "K1 None co g = Inl RuntimeError" "K1 ro None g = Inl RuntimeError" for ro co g
    by (simp_all add: K1_def K2N)
  have lhs: "ebind (train_branch_square pred_speed speed) (\<lambda>sq. train_speed_loss sq log_var_speed) =
     ebind (tmap2 (-) pred_speed speed) k1"
    by (cases "tmap2 (-) pred_speed speed")
      (simp_all add: train_branch_square_def train_speed_loss_def k1_def k2_def k3_def)
  show ?thesis
    unfolding lhs
    apply (subst ebind_tmap2_view [where K = K1, OF k1 K1N])
    by (simp only: K1_def K2_def K3_def spec_speed_loss_def obdim_chain3 Let_def list.map)
qed

lemma ebind_assoc: "ebind (ebind m f) g = ebind m (\<lambda>x. ebind (f x) g)"
  by (cases m) simp_all

lemma train_uncertain_unfold:
  "train_uncertain bw sw branches_out pred_speed log_var_control
      log_var_speed speed target mask_t =
    ebind (ebind (train_branch_square branches_out target)
             (\<lambda>sq. train_branch_loss sq log_var_control log_var_speed mask_t)) (\<lambda>bl.
    ebind (ebind (train_branch_square pred_speed speed)
             (\<lambda>sq. train_speed_loss sq log_var_speed)) (\<lambda>sl.
    Inr \<lparr>branch_loss = bl, speed_loss = sl,
         uncertain_loss = bw * bl + sw * sl\<rparr>))"
  by (simp add: train_uncertain_def ebind_assoc)

text \<open>
  C1. In uncertainty mode the training runner's branch loss is
  \<open>mean((exp(-log_var_control) * (branch_pred - target)^2 + log_var_speed) * 0.5 * mask) * 4\<close>,
  with \<open>log_var_speed\<close> as the regulariser, its speed loss is
  \<open>mean((exp(-log_var_speed) * (speed_pred - speed)^2 + log_var_speed) * 0.5)\<close>, and the
  total is \<open>branch_weight * branch_loss + speed_weight * speed_loss\<close>; the two computations
  also fail on the same inputs (shapes that do not broadcast, an empty tensor).
\<close>

theorem train_uncertain_formulas:
  "train_uncertain bw sw branches_out pred_speed log_var_control
      log_var_speed speed target mask_t =
   ebind (spec_branch_loss branches_out target log_var_control log_var_speed mask_t) (\<lambda>bl.
   ebind (spec_speed_loss pred_speed speed log_var_speed) (\<lambda>sl.
   Inr \<lparr>branch_loss = bl, speed_loss = sl,
        uncertain_loss = bw * bl + sw * sl\<rparr>))"
  by (simp only: train_uncertain_unfold branch_pipeline speed_pipeline)

lemma zero_log_var_branch:
  assumes rows: "bdims (map nrows [branches_out, target, log_var_control, log_var_speed, mask_t]) = Some r"
    and cols: "bdims (map ncols [branches_out, target, log_var_control, log_var_speed, mask_t]) = Some c"
    and ne: "r * c \<noteq> 0"
    and zc: "zero_tensor log_var_control" and zs: "zero_tensor log_var_speed"
    and m: "mask_selects mask_t target r c"
  shows "\<exists>u s. spec_branch_loss branches_out target log_var_control log_var_speed mask_t = Inr u
      \<and> ebind (tmap2 (*) branches_out mask_t) (\<lambda>masked. criterion masked target) = Inr s
      \<and> u = 0.5 * (s * 4)"
proof -
  let ?f5 = "\<lambda>i j. (exp (- entry log_var_control i j)
                            * (entry branches_out i j - entry target i j) ^ 2
                          + entry log_var_speed i j) * 0.5 * entry mask_t i j"
  let ?f3 = "\<lambda>i j. (entry branches_out i j * entry mask_t i j - entry target i j) ^ 2"
  let ?R = "[nrows branches_out, nrows target, nrows log_var_control, nrows log_var_speed, nrows mask_t]"
  let ?C = "[ncols branches_out, ncols target, ncols log_var_control, ncols log_var_speed, ncols mask_t]"
  from rows cols have R: "bdims ?R = Some r" and C: "bdims ?C = Some c" by simp_all
  have u: "spec_branch_loss branches_out target log_var_control log_var_speed mask_t =
      Inr ((\<Sum>i<r. \<Sum>j<c. ?f5 i j) / real (r * c) * 4)"
    using R C ne by (simp add: spec_branch_loss_def mean_of_def)
  obtain r3 where r3: "bdims [nrows branches_out, nrows mask_t, nrows target] = Some r3"
      "r3 = r \<or> r3 = 1"
    using bdims_sub [OF R, of "[nrows branches_out, nrows mask_t, nrows target]"] by auto
  obtain c3 where c3: "bdims [ncols branches_out, ncols mask_t, ncols target] = Some c3"
      "c3 = c \<or> c3 = 1"
    using bdims_sub [OF C, of "[ncols branches_out, ncols mask_t, ncols target]"] by auto
  have inv: "?f3 i j = ?f3 (pick r3 i) (pick c3 j)" for i j
    using bdims_mem [OF r3(1)] bdims_mem [OF c3(1)] by (simp add: entry_pick)
  have s: "ebind (tmap2 (*) branches_out mask_t) (\<lambda>masked. criterion masked target) =
      Inr ((\<Sum>i<r. \<Sum>j<c. ?f3 i j) / real (r * c))"
    using mean_of_expand [of r3 r c3 c ?f3, OF r3(2) c3(2) ne inv] r3(1) c3(1) ne
    by (simp add: simple_branch_view mean_of_def)
  have pt: "?f5 i j = 0.5 * ?f3 i j" if "i < r" "j < c" for i j
  proof -
    have "entry log_var_control i j = 0"
      using bdims_mem [OF R] bdims_mem [OF C] that by (intro entry_zero [OF zc, of r c]) simp_all
    moreover have "entry log_var_speed i j = 0"
      using bdims_mem [OF R] bdims_mem [OF C] that by (intro entry_zero [OF zs, of r c]) simp_all
    moreover have "entry mask_t i j = 1 \<or> (entry mask_t i j = 0 \<and> entry target i j = 0)"
      using m that by (simp add: mask_selects_def)
    ultimately show ?thesis by auto
  qed
  have "(\<Sum>i<r. \<Sum>j<c. ?f5 i j) = (\<Sum>i<r. \<Sum>j<c. 0.5 * ?f3 i j)"
  proof (intro sum.cong refl)
    fix i j assume "i \<in> {..<r}" "j \<in> {..<c}"
    then have "i < r" "j < c" by simp_all
    then show "?f5 i j = 0.5 * ?f3 i j" by (rule pt)
  qed
  also have "\<dots> = 0.5 * (\<Sum>i<r. \<Sum>j<c. ?f3 i j)"
    by (simp add: sum_distrib_left)
  finally have eq: "(\<Sum>i<r. \<Sum>j<c. ?f5 i j) = 0.5 * (\<Sum>i<r. \<Sum>j<c. ?f3 i j)" .
  have "(\<Sum>i<r. \<Sum>j<c. ?f5 i j) / real (r * c) * 4 =
      0.5 * ((\<Sum>i<r. \<Sum>j<c. ?f3 i j) / real (r * c) * 4)"
    by (subst eq) simp
  with u s show ?thesis by simp
qed

lemma zero_log_var_speed:
  assumes rows: "bdims (map nrows [pred_speed, speed, log_var_speed]) = Some r"
    and cols: "bdims (map ncols [pred_speed, speed, log_var_speed]) = Some c"
    and ne: "r * c \<noteq> 0"
    and zs: "zero_tensor log_var_speed"
  shows "\<exists>u s. spec_speed_loss pred_speed speed log_var_speed = Inr u
      \<and> criterion pred_speed speed = Inr s \<and> u = 0.5 * s"
proof -
  let ?f5 = "\<lambda>i j. (exp (- entry log_var_speed i j)
                      * (entry pred_speed i j - entry speed i j) ^ 2
                    + entry log_var_speed i j) * 0.5"
  let ?f3 = "\<lambda>i j. (entry pred_speed i j - entry speed i j) ^ 2"
  let ?R = "[nrows pred_speed, nrows speed, nrows log_var_speed]"
  let ?C = "[ncols pred_speed, ncols speed, ncols log_var_speed]"
  from rows cols have R: "bdims ?R = Some r" and C: "bdims ?C = Some c" by simp_all
  have u: "spec_speed_loss pred_speed speed log_var_speed =
      Inr ((\<Sum>i<r. \<Sum>j<c. ?f5 i j) / real (r * c))"
    using R C ne by (simp add: spec_speed_loss_def mean_of_def)
  obtain r3 where r3: "bdims [nrows pred_speed, nrows speed] = Some r3" "r3 = r \<or> r3 = 1"
    using bdims_sub [OF R, of "[nrows pred_speed, nrows speed]"] by auto
  obtain c3 where c3: "bdims [ncols pred_speed, ncols speed] = Some c3" "c3 = c \<or> c3 = 1"
    using bdims_sub [OF C, of "[ncols pred_speed, ncols speed]"] by auto
  have inv: "?f3 i j = ?f3 (pick r3 i) (pick c3 j)" for i j
    using bdims_mem [OF r3(1)] bdims_mem [OF c3(1)] by (simp add: entry_pick)
  have s: "criterion pred_speed speed = Inr ((\<Sum>i<r. \<Sum>j<c. ?f3 i j) / real (r * c))"
    using mean_of_expand [of r3 r c3 c ?f3, OF r3(2) c3(2) ne inv] r3(1) c3(1) ne
    by (simp add: criterion_view mean_of_def)
  have pt: "?f5 i j = 0.5 * ?f3 i j" if "i < r" "j < c" for i j
  proof -
    have "entry log_var_speed i j = 0"
      using bdims_mem [OF R] bdims_mem [OF C] that by (intro entry_zero [OF zs, of r c]) simp_all
    then show ?thesis by simp
  qed
  have "(\<Sum>i<r. \<Sum>j<c. ?f5 i j) = (\<Sum>i<r. \<Sum>j<c. 0.5 * ?f3 i j)"
  proof (intro sum.cong refl)
    fix i j assume "i \<in> {..<r}" "j \<in> {..<c}"
    then have "i < r" "j < c" by simp_all
    then show "?f5 i j = 0.5 * ?f3 i j" by (rule pt)
  qed
  also have "\<dots> = 0.5 * (\<Sum>i<r. \<Sum>j<c. ?f3 i j)"
    by (simp add: sum_distrib_left)
  finally have eq: "(\<Sum>i<r. \<Sum>j<c. ?f5 i j) = 0.5 * (\<Sum>i<r. \<Sum>j<c. ?f3 i j)" .
  have "(\<Sum>i<r. \<Sum>j<c. ?f5 i j) / real (r * c) =
      0.5 * ((\<Sum>i<r. \<Sum>j<c. ?f3 i j) / real (r * c))"
    by (subst eq) simp
  with u s show ?thesis by simp
qed

lemma train_simple_unfold:
  "train_simple bw sw branches_out pred_speed speed target mask_t =
     ebind (ebind (tmap2 (*) branches_out mask_t) (\<lambda>masked. criterion masked target)) (\<lambda>c1.
     ebind (criterion pred_speed speed) (\<lambda>sl.
     Inr \<lparr>branch_loss = c1 * 4, speed_loss = sl,
          uncertain_loss = bw * (c1 * 4) + sw * sl\<rparr>))"
  by (simp add: train_simple_def ebind_assoc)

lemma of_rows_single [simp]:
  "nrows (of_rows [[x]]) = 1" "ncols (of_rows [[x]]) = 1" "elem (of_rows [[x]]) 0 0 = x"
  by (simp_all add: of_rows_def)

lemma of_rows_pair [simp]:
  "nrows (of_rows [[x, y]]) = 1" "ncols (of_rows [[x, y]]) = 2"
  "elem (of_rows [[x, y]]) 0 0 = x" "elem (of_rows [[x, y]]) 0 (Suc 0) = y"
  by (simp_all add: of_rows_def)

lemmas loss_defs = train_uncertain_def train_branch_square_def train_branch_loss_def
  train_speed_loss_def train_simple_def evaluate_losses_def evaluate_branch_loss_def
  evaluate_speed_loss_def criterion_def tmap2_def tmap_def mean_def entry_def pick_def bdim_def

text \<open>
  C2. According to the specification \<open>evaluate\<close> computes the same uncertainty-mode losses
  as \<open>train\<close>. It does not: \<open>train\<close> adds \<open>log_var_speed\<close> inside the branch loss where
  \<open>evaluate\<close> adds \<open>log_var_control\<close>. On the one-entry batch with prediction, target and
  speed 0, mask 1, \<open>log_var_control = 0\<close> and \<open>log_var_speed = 1\<close> (both weights 1),
  \<open>train\<close> has branch loss 2 and \<open>evaluate\<close> has branch loss 0; the speed losses agree.
\<close>

theorem evaluate_branch_loss_differs:
  "train_uncertain 1 1 (of_rows [[0]]) (of_rows [[0]]) (of_rows [[0]]) (of_rows [[1]])
      (of_rows [[0]]) (of_rows [[0]]) (of_rows [[1]]) =
     Inr \<lparr>branch_loss = 2, speed_loss = 1 / 2, uncertain_loss = 5 / 2\<rparr> \<and>
   evaluate_losses 1 1 (of_rows [[0]]) (of_rows [[0]]) (of_rows [[0]]) (of_rows [[1]])
      (of_rows [[0]]) (of_rows [[0]]) (of_rows [[1]]) =
     Inr (\<lparr>branch_loss = 0, speed_loss = 1 / 2, uncertain_loss = 1 / 2\<rparr>,
          \<lparr>ori_loss = 0, uncertain_control_mean = 4, uncertain_speed_mean = exp 1\<rparr>)"
  by (simp add: loss_defs)




text \<open>
  Where the two runners do agree: the speed loss of \<open>evaluate\<close> is that of \<open>train\<close>, and its
  branch loss is that of \<open>train\<close> with \<open>log_var_control\<close> in the place of the regulariser
  \<open>log_var_speed\<close>.
\<close>

lemma evaluate_speed_loss_eq_train:
  "evaluate_speed_loss pred_speed speed log_var_speed =
   ebind (train_branch_square pred_speed speed) (\<lambda>sq. train_speed_loss sq log_var_speed)"
  by (simp add: evaluate_speed_loss_def train_branch_square_def train_speed_loss_def ebind_assoc)

lemma evaluate_branch_loss_eq_train:
  "evaluate_branch_loss branches_out target log_var_control mask_t =
   ebind (train_branch_square branches_out target)
     (\<lambda>sq. train_branch_loss sq log_var_control log_var_control mask_t)"
  by (simp add: evaluate_branch_loss_def train_branch_square_def train_branch_loss_def ebind_assoc)

section \<open>The training runner\<close>

lemma train_format_raises:
  "format_check train_log_fields train_log_kwargs = Some (KeyError ''bacth_time'')"
  by (simp add: train_log_fields_def train_log_kwargs_def)

lemma eval_format_ok: "format_check eval_log_fields eval_log_kwargs = None"
  by (simp add: eval_log_fields_def eval_log_kwargs_def)

lemma print_due_first: "print_due a 0 n = Inr d \<Longrightarrow> d"
  by (auto simp: print_due_def py_mod_def ebind_eq_Inr split: if_splits)

lemma update_losses_keeps:
  "update_losses a l ms = Inr ms' \<Longrightarrow>
     ori_losses ms' = ori_losses ms \<and> uncertain_control_means ms' = uncertain_control_means ms
     \<and> uncertain_speed_means ms' = uncertain_speed_means ms"
  by (auto simp: update_losses_def ebind_eq_Inr)

lemma train_compute_simple_keeps:
  assumes "net_structure a = 1" and "train_compute a nt m b ms = Inr ms'"
  shows "ori_losses ms' = ori_losses ms \<and> uncertain_control_means ms' = uncertain_control_means ms
     \<and> uncertain_speed_means ms' = uncertain_speed_means ms"
proof -
  from assms obtain out where out: "forward nt True m (b_img b) (b_speed b) = Inr out"
    and rest: "(case out of
          Out4 _ _ _ _ \<Rightarrow> Inl ValueError
        | Out2 branches_out pred_speed \<Rightarrow>
            ebind (train_simple (branch_weight a) (speed_weight a) branches_out pred_speed
                     (b_speed b) (b_target b) (b_mask b)) (\<lambda>l.
            update_losses a l ms)) = Inr ms'"
    by (auto simp: train_compute_def ebind_eq_Inr)
  from rest obtain l where "update_losses a l ms = Inr ms'"
    by (cases out) (auto simp: ebind_eq_Inr)
  then show ?thesis by (rule update_losses_keeps)
qed

lemma train_batch_first:
  "\<exists>e w'. train_batch a nt epoch n 0 b ms w = (Inl e, w') \<and>
     (writer w' = writer w \<or>
      (\<exists>ms'. train_compute a nt (model w) b ms = Inr ms' \<and>
             writer w' = writer w @ train_records ms' (epoch * int n)))"
proof (cases "train_compute a nt (model w) b ms")
  case (Inl e)
  then show ?thesis by (simp add: train_batch_def)
next
  case ms': (Inr ms')
  show ?thesis
  proof (cases "opt_step nt (lr w) (optimizer w) (model w) b")
    case (Inl e)
    then show ?thesis using ms' by (simp add: train_batch_def)
  next
    case (Inr om)
    obtain o' m' where om: "om = (o', m')" by (cases om)
    show ?thesis
    proof (cases "print_due a 0 n")
      case (Inl e)
      then show ?thesis using ms' Inr om by (simp add: train_batch_def)
    next
      case d: (Inr d)
      from print_due_first [OF d] have "d" .
      then show ?thesis
        using ms' Inr om d by (simp add: train_batch_def train_format_raises)
    qed
  qed
qed

lemma train_first:
  assumes "loader = b # bs"
  shows "\<exists>e w'. train a nt loader epoch w = (Inl e, w') \<and>
     (writer w' = writer w \<or>
      (\<exists>ms'. train_compute a nt (model w) b train_meters_init = Inr ms' \<and>
             writer w' = writer w @ train_records ms' (epoch * int (length loader))))"
proof -
  from train_batch_first [of a nt epoch "length loader" b train_meters_init w]
  obtain e w' where tb: "train_batch a nt epoch (length loader) 0 b train_meters_init w = (Inl e, w')"
    and wr: "writer w' = writer w \<or>
      (\<exists>ms'. train_compute a nt (model w) b train_meters_init = Inr ms' \<and>
             writer w' = writer w @ train_records ms' (epoch * int (length loader)))"
    by blast
  have "train a nt loader epoch w = (Inl e, w')"
    using tb assms by (simp add: train_def)
  with wr show ?thesis by blast
qed

lemmas run_defs = train_def train_batch_def train_compute_def update_losses_def update_def
  reset_def train_meters_init_def print_due_def getattr_def as_num_def py_mod_def
  train_records_def train_format_raises parser_defaults_def Let_def

text \<open>
  C9. The specification has \<open>train\<close> emit a snapshot on every batch whose index is a
  multiple of the print frequency and on the last batch. The code does not get that far. Take simple
  mode, a loader of two batches and print frequency 1. With the namespace the parser
  produces, \<open>args.print_freq\<close> raises AttributeError on the first batch (the option is declared
  as \<open>--print_frequency\<close>) and nothing is emitted. With \<open>print_freq = 1\<close> set on the
  namespace, the six records of batch 0 are emitted at step \<open>epoch * 2 + 0\<close>, and then the
  log line's template asks for the field \<open>bacth_time\<close>, which is not among the keyword
  arguments of \<open>format\<close>: KeyError ends the epoch, and batch 1 emits nothing.
\<close>

theorem train_two_batches_one_emission:
  "train (parser_defaults\<lparr>net_structure := 1\<rparr>)
      \<lparr>forward = (\<lambda>training m i s. Inr (Out2 (of_rows [[1]]) (of_rows [[0]]))),
       opt_step = (\<lambda>rate (o' :: unit) (m :: unit) b. Inr (o', m))\<rparr>
      [\<lparr>b_img = (), b_speed = of_rows [[0]], b_target = of_rows [[0]], b_mask = of_rows [[1]]\<rparr>,
       \<lparr>b_img = (), b_speed = of_rows [[0]], b_target = of_rows [[0]], b_mask = of_rows [[1]]\<rparr>]
      0 \<lparr>model = (), optimizer = (), lr = 0, writer = [], log_lines = []\<rparr> =
   (Inl (AttributeError ''print_freq''),
    \<lparr>model = (), optimizer = (), lr = 0, writer = [], log_lines = []\<rparr>) \<and>
   train (parser_defaults\<lparr>net_structure := 1,
            extra := (extra parser_defaults)(''print_freq'' \<mapsto> PyNum 1)\<rparr>)
      \<lparr>forward = (\<lambda>training m i s. Inr (Out2 (of_rows [[1]]) (of_rows [[0]]))),
       opt_step = (\<lambda>rate (o' :: unit) (m :: unit) b. Inr (o', m))\<rparr>
      [\<lparr>b_img = (), b_speed = of_rows [[0]], b_target = of_rows [[0]], b_mask = of_rows [[1]]\<rparr>,
       \<lparr>b_img = (), b_speed = of_rows [[0]], b_target = of_rows [[0]], b_mask = of_rows [[1]]\<rparr>]
      0 \<lparr>model = (), optimizer = (), lr = 0, writer = [], log_lines = []\<rparr> =
   (Inl (KeyError ''bacth_time''),
    \<lparr>model = (), optimizer = (), lr = 0,
     writer = [(''train/branch_loss'', 4, 0), (''train/speed_loss'', 0, 0),
               (''train/uncertain_loss'', 4 / 10, 0), (''train/ori_loss'', 0, 0),
               (''train/control_uncertain'', 0, 0), (''train/speed_uncertain'', 0, 0)],
     log_lines = []\<rparr>)"
  by (simp add: run_defs loss_defs)

text \<open>
  C10. In simple mode (\<open>args.net_structure == 1\<close>) \<open>train\<close> never updates the ori-loss
  meter and the two uncertainty meters, and every value it emits for the series
  \<open>train/ori_loss\<close>, \<open>train/control_uncertain\<close> and \<open>train/speed_uncertain\<close> is 0. It does not,
  however, emit them on every print-interval batch: on a non-empty loader the
  run of \<open>train\<close> always ends in an exception on the first batch, having emitted nothing or
  the six records of batch 0.
\<close>

theorem train_simple_mode_zero_series:
  assumes "net_structure a = 1" and "loader \<noteq> []"
  shows "\<exists>e w'. train a nt loader epoch w = (Inl e, w') \<and>
     (writer w' = writer w \<or>
      (\<exists>bl sl ul. writer w' = writer w @
          [(''train/branch_loss'', bl, epoch * int (length loader)),
           (''train/speed_loss'', sl, epoch * int (length loader)),
           (''train/uncertain_loss'', ul, epoch * int (length loader)),
           (''train/ori_loss'', 0, epoch * int (length loader)),
           (''train/control_uncertain'', 0, epoch * int (length loader)),
           (''train/speed_uncertain'', 0, epoch * int (length loader))]))"
proof -
  from assms(2) obtain b bs where l: "loader = b # bs" by (cases loader) auto
  from train_first [OF l, of a nt epoch w]
  obtain e w' where t: "train a nt loader epoch w = (Inl e, w')"
    and wr: "writer w' = writer w \<or>
      (\<exists>ms'. train_compute a nt (model w) b train_meters_init = Inr ms' \<and>
             writer w' = writer w @ train_records ms' (epoch * int (length loader)))"
    by blast
  from wr show ?thesis
  proof
    assume "writer w' = writer w"
    with t show ?thesis by blast
  next
    assume "\<exists>ms'. train_compute a nt (model w) b train_meters_init = Inr ms' \<and>
             writer w' = writer w @ train_records ms' (epoch * int (length loader))"
    then obtain ms' where c: "train_compute a nt (model w) b train_meters_init = Inr ms'"
      and w': "writer w' = writer w @ train_records ms' (epoch * int (length loader))"
      by blast
    from train_compute_simple_keeps [OF assms(1) c]
    have "val (ori_losses ms') = 0" "val (uncertain_control_means ms') = 0"
      "val (uncertain_speed_means ms') = 0"
      by (simp_all add: train_meters_init_def reset_def)
    with w' have "writer w' = writer w @
          [(''train/branch_loss'', val (branch_losses ms'), epoch * int (length loader)),
           (''train/speed_loss'', val (speed_losses ms'), epoch * int (length loader)),
           (''train/uncertain_loss'', val (uncertain_losses ms'), epoch * int (length loader)),
           (''train/ori_loss'', 0, epoch * int (length loader)),
           (''train/control_uncertain'', 0, epoch * int (length loader)),
           (''train/speed_uncertain'', 0, epoch * int (length loader))]"
      by (simp add: train_records_def)
    with t show ?thesis by blast
  qed
qed

theorem train_simple_mode_zero_series_witness:
  "net_structure (parser_defaults\<lparr>net_structure := 1,
       extra := (extra parser_defaults)(''print_freq'' \<mapsto> PyNum 1)\<rparr>) = 1 \<and>
   train (parser_defaults\<lparr>net_structure := 1,
            extra := (extra parser_defaults)(''print_freq'' \<mapsto> PyNum 1)\<rparr>)
      \<lparr>forward = (\<lambda>training m i s. Inr (Out2 (of_rows [[1]]) (of_rows [[0]]))),
       opt_step = (\<lambda>rate (o' :: unit) (m :: unit) b. Inr (o', m))\<rparr>
      [\<lparr>b_img = (), b_speed = of_rows [[0]], b_target = of_rows [[0]], b_mask = of_rows [[1]]\<rparr>,
       \<lparr>b_img = (), b_speed = of_rows [[0]], b_target = of_rows [[0]], b_mask = of_rows [[1]]\<rparr>,
       \<lparr>b_img = (), b_speed = of_rows [[0]], b_target = of_rows [[0]], b_mask = of_rows [[1]]\<rparr>]
      2 \<lparr>model = (), optimizer = (), lr = 0, writer = [], log_lines = []\<rparr> =
   (Inl (KeyError ''bacth_time''),
    \<lparr>model = (), optimizer = (), lr = 0,
     writer = [(''train/branch_loss'', 4, 6), (''train/speed_loss'', 0, 6),
               (''train/uncertain_loss'', 4 / 10, 6), (''train/ori_loss'', 0, 6),
               (''train/control_uncertain'', 0, 6), (''train/speed_uncertain'', 0, 6)],
     log_lines = []\<rparr>)"
  using train_simple_mode_zero_series
    [of "parser_defaults\<lparr>net_structure := 1,
            extra := (extra parser_defaults)(''print_freq'' \<mapsto> PyNum 1)\<rparr>"
        "[\<lparr>b_img = (), b_speed = of_rows [[0]], b_target = of_rows [[0]], b_mask = of_rows [[1]]\<rparr>,
       \<lparr>b_img = (), b_speed = of_rows [[0]], b_target = of_rows [[0]], b_mask = of_rows [[1]]\<rparr>,
       \<lparr>b_img = (), b_speed = of_rows [[0]], b_target = of_rows [[0]], b_mask = of_rows [[1]]\<rparr>]"
        "\<lparr>forward = (\<lambda>training m i s. Inr (Out2 (of_rows [[1]]) (of_rows [[0]]))),
       opt_step = (\<lambda>rate (o' :: unit) (m :: unit) b. Inr (o', m))\<rparr>"
        2 "\<lparr>model = (), optimizer = (), lr = 0, writer = [], log_lines = []\<rparr>"]
  by (simp add: run_defs loss_defs)

section \<open>Properties of the orchestrator\<close>

subsection \<open>The import of \<open>save_checkpoint\<close>\<close>

lemma import_save_checkpoint:
  "import_from helper_names [''AverageMeter'', ''save_checkpoint'']
     = Some (ImportError ''save_checkpoint'')"
  by (simp add: helper_names_def)

lemma script_raises:
  "script sys nt train_loader eval_loader a ev = (Some (ImportError ''save_checkpoint''), ev)"
  unfolding script_def import_save_checkpoint by simp

subsection \<open>Lines 57 to 102\<close>

text \<open>
  \<open>startup\<close> hands on the namespace with \<open>distributed\<close> set and nothing else changed, and it
  gives \<open>output_log\<close> at most the seed and GPU messages; it writes no summary record.
\<close>

lemma startup_args:
  assumes "startup sys a ev = (Inr (a1, m), ev1)"
  shows "a1 = set_distributed a"
  using assms
  by (simp add: startup_def Let_def split: prod.splits option.splits sum.splits)

lemma startup_log_lines:
  assumes "startup sys a ev = (r, ev1)"
  shows "env_log ev1 = env_log ev \<or> env_log ev1 = env_log ev @ startup_log a"
  using assms
  by (auto simp add: startup_def Let_def split: prod.splits option.splits sum.splits)

lemma startup_writer:
  assumes "startup sys a ev = (r, ev1)"
  shows "env_writer ev1 = env_writer ev"
  using assms
  by (auto simp add: startup_def Let_def split: prod.splits option.splits sum.splits)

text \<open>\<open>startup\<close> uses neither the schedule, nor the data set, nor the checkpoint files.\<close>

lemma startup_system:
  "startup (sys\<lparr>step_lr := s\<rparr>) a ev = startup sys a ev"
  "startup (sys\<lparr>torch_save := ts, copyfile := cf\<rparr>) a ev = startup sys a ev"
  by (simp_all add: startup_def distributed_step_def Let_def
        cong: prod.case_cong option.case_cong sum.case_cong)

lemma no_checkpoint_not_startup:
  "''=> no checkpoint found at '' @ quoted p \<notin> set (startup_log a)"
  by (simp add: startup_log_def)

subsection \<open>Line 104\<close>

text \<open>
  The parser stores the option \<open>-lr\<close>, \<open>--learning_rate\<close> as \<open>args.learning_rate\<close>; no line sets
  \<open>args.lr\<close>. Reading it raises AttributeError, unless an earlier line of \<open>main\<close> raised.
\<close>

lemma getattr_lr:
  assumes "extra a ''lr'' = None"
  shows "getattr (set_distributed a) ''lr'' = Inl (AttributeError ''lr'')"
  using assms by (simp add: getattr_def set_distributed_def)

lemma main_without_lr:
  assumes "extra a ''lr'' = None"
  shows "main sys rs a ev =
           (case startup sys a ev of
              (Inl e, ev1) \<Rightarrow> (Some e, ev1)
            | (Inr (a1, m), ev1) \<Rightarrow>
               (case uncertain_parameters sys m of
                  Some e \<Rightarrow> (Some e, ev1)
                | None \<Rightarrow> (Some (AttributeError ''lr''), ev1)))"
proof (cases "startup sys a ev")
  case (Pair r ev1)
  show ?thesis
  proof (cases r)
    case (Inl e)
    with Pair show ?thesis by (simp add: main_def)
  next
    case (Inr p)
    obtain a1 m where p: "p = (a1, m)" by (cases p)
    from Pair Inr p have "a1 = set_distributed a" by (simp add: startup_args)
    with assms have "getattr a1 ''lr'' = Inl (AttributeError ''lr'')" by (simp add: getattr_lr)
    with Pair Inr p show ?thesis by (simp add: main_def split: option.splits)
  qed
qed

lemma main_without_lr_raises:
  assumes "extra a ''lr'' = None"
  shows "\<exists>e ev'. main sys rs a ev = (Some e, ev')"
  by (simp add: main_without_lr [OF assms] split: prod.splits sum.splits option.splits)

lemma main_without_lr_log:
  assumes "extra a ''lr'' = None" and "main sys rs a ev = (r, ev')"
  shows "(env_log ev' = env_log ev \<or> env_log ev' = env_log ev @ startup_log a)
         \<and> env_writer ev' = env_writer ev"
proof (cases "startup sys a ev")
  case (Pair q ev1)
  from assms(2) Pair have "ev' = ev1"
    by (simp add: main_without_lr [OF assms(1)] split: prod.splits sum.splits option.splits)
  with Pair show ?thesis
    using startup_log_lines [of sys a ev q ev1] startup_writer [of sys a ev q ev1] by simp
qed

lemma main_without_lr_runners:
  assumes "extra a ''lr'' = None"
  shows "main sys rs' a ev = main sys rs a ev"
  by (simp add: main_without_lr [OF assms])

lemma main_without_lr_schedule:
  assumes "extra a ''lr'' = None"
  shows "main (sys\<lparr>step_lr := s\<rparr>) rs a ev = main sys rs a ev"
  by (simp add: main_without_lr [OF assms] startup_system
        cong: prod.case_cong sum.case_cong option.case_cong)

lemma main_without_lr_save:
  assumes "extra a ''lr'' = None"
  shows "main (sys\<lparr>torch_save := ts, copyfile := cf\<rparr>) rs a ev = main sys rs a ev"
  by (simp add: main_without_lr [OF assms] startup_system
        cong: prod.case_cong sum.case_cong option.case_cong)

lemmas main_defs =
  main_def startup_def startup_log_def set_distributed_def distributed_step_def getattr_def
  path_join_def save_weight_dir_def parser_defaults_def Let_def

text \<open>
  C4. The specification has \<open>main\<close> compare each epoch's evaluation metric with the best one
  so far, starting from infinity (for the metrics 5, 3, 4, 2: best 5, 3, 3, 2 and flags
  true, true, false, true). \<open>main\<close> does not get that far. On a namespace without the
  attribute \<open>lr\<close>, and the parser makes no other, \<open>main\<close> raises (at line 104 at the latest),
  and what it raises and leaves behind is the same for all runners, whatever metrics they
  return: no metric is compared, and line 107, which starts the best metric, is not
  reached.
\<close>

theorem main_raises_before_best_metric:
  assumes "extra a ''lr'' = None"
  shows "\<exists>e ev'. main sys rs a ev = (Some e, ev') \<and> (\<forall>rs'. main sys rs' a ev = (Some e, ev'))"
proof -
  from main_without_lr_raises [OF assms]
  obtain e ev' where m: "main sys rs a ev = (Some e, ev')" by blast
  have "\<forall>rs'. main sys rs' a ev = (Some e, ev')"
    using m main_without_lr_runners [OF assms, where sys = sys and rs = rs and ev = ev] by simp
  with m show ?thesis by blast
qed

text \<open>
  The run of the specification's example: four epochs, an evaluation that returns 5, 3, 4, 2,
  a system in which no call fails. \<open>main\<close> raises AttributeError for \<open>lr\<close> and logs nothing.
\<close>

theorem main_raises_before_best_metric_witness:
  "extra (parser_defaults\<lparr>epochs := 4\<rparr>) ''lr'' = None
   \<and> (\<exists>e ev'.
        main \<lparr>makedirs = (\<lambda>p (f :: unit). (None, f)), start_logging = (\<lambda>p d f. (None, f)),
              init_process_group = (\<lambda>b u n. None), build_model = (\<lambda>a f. Inr ()),
              uncertain_parameters = (\<lambda>m. None), adam = (\<lambda>m v. Inr ((), 0)),
              step_lr = (\<lambda>r s g k. r), carla_data = None, isfile = (\<lambda>f p. False),
              torch_load = (\<lambda>f p. Inl RuntimeError), torch_save = (\<lambda>c p f. (None, f)),
              copyfile = (\<lambda>s d f. (None, f))\<rparr>
             \<lparr>train_fn = (\<lambda>a epoch w. (Inr (0, 0, 0), w)),
              eval_fn = (\<lambda>a epoch w. (Inr ([5, 3, 4, 2] ! nat epoch), w))\<rparr>
             (parser_defaults\<lparr>epochs := 4\<rparr>)
             \<lparr>env_files = (), env_writer = [], env_log = []\<rparr> = (Some e, ev')
        \<and> e = AttributeError ''lr'' \<and> env_log ev' = [])"
  using main_raises_before_best_metric
    [of "parser_defaults\<lparr>epochs := 4\<rparr>"
        "\<lparr>makedirs = (\<lambda>p (f :: unit). (None, f)), start_logging = (\<lambda>p d f. (None, f)),
          init_process_group = (\<lambda>b u n. None), build_model = (\<lambda>a f. Inr ()),
          uncertain_parameters = (\<lambda>m. None), adam = (\<lambda>m v. Inr ((), 0)),
          step_lr = (\<lambda>r s g k. r), carla_data = None, isfile = (\<lambda>f p. False),
          torch_load = (\<lambda>f p. Inl RuntimeError), torch_save = (\<lambda>c p f. (None, f)),
          copyfile = (\<lambda>s d f. (None, f))\<rparr>"
        "\<lparr>train_fn = (\<lambda>a epoch w. (Inr (0, 0, 0), w)),
          eval_fn = (\<lambda>a epoch w. (Inr ([5, 3, 4, 2] ! nat epoch), w))\<rparr>"
        "\<lparr>env_files = (), env_writer = [], env_log = []\<rparr>"]
  by (simp add: main_defs)

text \<open>
  C5. The specification has every epoch write its checkpoint file and copy it to the
  best-checkpoint file when the metric improved. Running main.py stops at line 20: the
  module \<open>helper\<close> binds no name \<open>save_checkpoint\<close>, and the import raises ImportError. And
  \<open>main\<close> itself, on a namespace without the attribute \<open>lr\<close>, raises before its first epoch:
  what it raises and leaves behind does not depend on what \<open>torch.save\<close> and
  \<open>shutil.copyfile\<close> do, so neither is called and no checkpoint is written.
\<close>

theorem main_raises_before_checkpoint:
  assumes "extra a ''lr'' = None"
  shows "script sys nt train_loader eval_loader a ev = (Some (ImportError ''save_checkpoint''), ev)
         \<and> (\<exists>e ev'. main sys rs a ev = (Some e, ev')
               \<and> (\<forall>ts cf. main (sys\<lparr>torch_save := ts, copyfile := cf\<rparr>) rs a ev = (Some e, ev')))"
proof -
  from main_without_lr_raises [OF assms]
  obtain e ev' where m: "main sys rs a ev = (Some e, ev')" by blast
  have "\<forall>ts cf. main (sys\<lparr>torch_save := ts, copyfile := cf\<rparr>) rs a ev = (Some e, ev')"
    using m main_without_lr_save [OF assms, where sys = sys and rs = rs and ev = ev] by simp
  with m script_raises [of sys nt train_loader eval_loader a ev] show ?thesis by blast
qed

text \<open>
  A run with the parser's defaults on a system in which no call fails and whose file system
  is the list of the paths written, the latest first: the script raises ImportError and
  writes nothing; \<open>main\<close> raises AttributeError for \<open>lr\<close> and has written the two directories
  and the log file, and no checkpoint.
\<close>

theorem main_raises_before_checkpoint_witness:
  "extra parser_defaults ''lr'' = None
   \<and> script \<lparr>makedirs = (\<lambda>p f. (None, p # f)), start_logging = (\<lambda>p d f. (None, p # f)),
             init_process_group = (\<lambda>b u n. None), build_model = (\<lambda>a f. Inr ()),
             uncertain_parameters = (\<lambda>m. None), adam = (\<lambda>m v. Inr ((), 0)),
             step_lr = (\<lambda>r s g k. r), carla_data = None, isfile = (\<lambda>f p. p \<in> set f),
             torch_load = (\<lambda>f p. Inl RuntimeError), torch_save = (\<lambda>c p f. (None, p # f)),
             copyfile = (\<lambda>s d f. (None, d # f))\<rparr>
            \<lparr>forward = (\<lambda>training m (i :: unit) s. Inr (Out2 (of_rows [[1]]) (of_rows [[0]]))),
             opt_step = (\<lambda>rate o' m b. Inr (o', m))\<rparr>
            [] [] parser_defaults \<lparr>env_files = [], env_writer = [], env_log = []\<rparr>
       = (Some (ImportError ''save_checkpoint''), \<lparr>env_files = [], env_writer = [], env_log = []\<rparr>)
   \<and> (\<exists>e ev'.
        main \<lparr>makedirs = (\<lambda>p f. (None, p # f)), start_logging = (\<lambda>p d f. (None, p # f)),
              init_process_group = (\<lambda>b u n. None), build_model = (\<lambda>a f. Inr ()),
              uncertain_parameters = (\<lambda>m. None), adam = (\<lambda>m v. Inr ((), 0)),
              step_lr = (\<lambda>r s g k. r), carla_data = None, isfile = (\<lambda>f p. p \<in> set f),
              torch_load = (\<lambda>f p. Inl RuntimeError), torch_save = (\<lambda>c p f. (None, p # f)),
              copyfile = (\<lambda>s d f. (None, d # f))\<rparr>
             \<lparr>train_fn = (\<lambda>a epoch w. (Inr (0, 0, 0), w)),
              eval_fn = (\<lambda>a epoch w. (Inr 1, w))\<rparr>
             parser_defaults \<lparr>env_files = [], env_writer = [], env_log = []\<rparr> = (Some e, ev')
        \<and> e = AttributeError ''lr''
        \<and> env_files ev' = [''./logs/test/carla_training.log'', ''./save_models/test'', ''./logs/test''])"
  using main_raises_before_checkpoint
    [of parser_defaults
        "\<lparr>makedirs = (\<lambda>p f. (None, p # f)), start_logging = (\<lambda>p d f. (None, p # f)),
          init_process_group = (\<lambda>b u n. None), build_model = (\<lambda>a f. Inr ()),
          uncertain_parameters = (\<lambda>m. None), adam = (\<lambda>m v. Inr ((), 0)),
          step_lr = (\<lambda>r s g k. r), carla_data = None, isfile = (\<lambda>f p. p \<in> set f),
          torch_load = (\<lambda>f p. Inl RuntimeError), torch_save = (\<lambda>c p f. (None, p # f)),
          copyfile = (\<lambda>s d f. (None, d # f))\<rparr>"
        "\<lparr>forward = (\<lambda>training m (i :: unit) s. Inr (Out2 (of_rows [[1]]) (of_rows [[0]]))),
          opt_step = (\<lambda>rate o' m b. Inr (o', m))\<rparr>"
        "[]" "[]" "\<lparr>env_files = [], env_writer = [], env_log = []\<rparr>"
        "\<lparr>train_fn = (\<lambda>a epoch w. (Inr (0, 0, 0), w)),
          eval_fn = (\<lambda>a epoch w. (Inr 1, w))\<rparr>"]
  by (simp add: main_defs)

text \<open>
  C6. The specification has an evaluation-only run whose checkpoint does not exist log that
  no checkpoint was found and return. \<open>main\<close> does not get that far: on a namespace without
  the attribute \<open>lr\<close> an evaluation-only run (as every other) raises instead of returning. It
  writes no summary record, and the only lines it can have logged are the seed and GPU
  messages of lines 75 and 83, none of which is the message that no checkpoint was found.
\<close>

theorem main_evaluate_only_raises:
  assumes "evaluate_flag a" and "extra a ''lr'' = None"
  shows "\<exists>e ev'. main sys rs a ev = (Some e, ev')
           \<and> (env_log ev' = env_log ev \<or> env_log ev' = env_log ev @ startup_log a)
           \<and> env_writer ev' = env_writer ev
           \<and> (\<forall>p. ''=> no checkpoint found at '' @ quoted p \<notin> set (startup_log a))"
proof -
  from main_without_lr_raises [OF assms(2)]
  obtain e ev' where m: "main sys rs a ev = (Some e, ev')" by blast
  from main_without_lr_log [OF assms(2) m]
  have "(env_log ev' = env_log ev \<or> env_log ev' = env_log ev @ startup_log a)
        \<and> env_writer ev' = env_writer ev" .
  with m no_checkpoint_not_startup show ?thesis by blast
qed

text \<open>
  \<^verbatim>\<open>python main.py --evaluate --resume missing.pth\<close> on a system in which no call fails and no
  file exists: \<open>main\<close> raises AttributeError for \<open>lr\<close> and has logged nothing.
\<close>

theorem main_evaluate_only_raises_witness:
  "evaluate_flag (parser_defaults\<lparr>evaluate_flag := True, resume := ''missing.pth''\<rparr>)
   \<and> extra (parser_defaults\<lparr>evaluate_flag := True, resume := ''missing.pth''\<rparr>) ''lr'' = None
   \<and> (\<exists>e ev'.
        main \<lparr>makedirs = (\<lambda>p (f :: unit). (None, f)), start_logging = (\<lambda>p d f. (None, f)),
              init_process_group = (\<lambda>b u n. None), build_model = (\<lambda>a f. Inr ()),
              uncertain_parameters = (\<lambda>m. None), adam = (\<lambda>m v. Inr ((), 0)),
              step_lr = (\<lambda>r s g k. r), carla_data = None, isfile = (\<lambda>f p. False),
              torch_load = (\<lambda>f p. Inl RuntimeError), torch_save = (\<lambda>c p f. (None, f)),
              copyfile = (\<lambda>s d f. (None, f))\<rparr>
             \<lparr>train_fn = (\<lambda>a epoch w. (Inr (0, 0, 0), w)),
              eval_fn = (\<lambda>a epoch w. (Inr 1, w))\<rparr>
             (parser_defaults\<lparr>evaluate_flag := True, resume := ''missing.pth''\<rparr>)
             \<lparr>env_files = (), env_writer = [], env_log = []\<rparr> = (Some e, ev')
        \<and> e = AttributeError ''lr'' \<and> env_log ev' = [] \<and> env_writer ev' = [])"
  using main_evaluate_only_raises
    [of "parser_defaults\<lparr>evaluate_flag := True, resume := ''missing.pth''\<rparr>"
        "\<lparr>makedirs = (\<lambda>p (f :: unit). (None, f)), start_logging = (\<lambda>p d f. (None, f)),
          init_process_group = (\<lambda>b u n. None), build_model = (\<lambda>a f. Inr ()),
          uncertain_parameters = (\<lambda>m. None), adam = (\<lambda>m v. Inr ((), 0)),
          step_lr = (\<lambda>r s g k. r), carla_data = None, isfile = (\<lambda>f p. False),
          torch_load = (\<lambda>f p. Inl RuntimeError), torch_save = (\<lambda>c p f. (None, f)),
          copyfile = (\<lambda>s d f. (None, f))\<rparr>"
        "\<lparr>train_fn = (\<lambda>a epoch w. (Inr (0, 0, 0), w)),
          eval_fn = (\<lambda>a epoch w. (Inr 1, w))\<rparr>"
        "\<lparr>env_files = (), env_writer = [], env_log = []\<rparr>"]
  by (simp add: main_defs)

text \<open>
  C8. The specification has each epoch step the learning-rate schedule before it trains, so
  that the first training epoch runs with the stepped rate. \<open>main\<close> does not get that far: on
  a namespace without the attribute \<open>lr\<close> it raises where the optimizer is built, one line
  before the schedule is. What it raises and leaves behind depends neither on the schedule
  nor on the training runner: the schedule is not stepped, and no epoch is trained, with
  whatever rate.
\<close>

theorem main_raises_before_schedule:
  assumes "extra a ''lr'' = None"
  shows "\<exists>e ev'. main sys rs a ev = (Some e, ev')
           \<and> (\<forall>s tf. main (sys\<lparr>step_lr := s\<rparr>) (rs\<lparr>train_fn := tf\<rparr>) a ev = (Some e, ev'))"
proof -
  from main_without_lr_raises [OF assms]
  obtain e ev' where m: "main sys rs a ev = (Some e, ev')" by blast
  have "main (sys\<lparr>step_lr := s\<rparr>) (rs\<lparr>train_fn := tf\<rparr>) a ev = (Some e, ev')" for s tf
  proof -
    have "main (sys\<lparr>step_lr := s\<rparr>) (rs\<lparr>train_fn := tf\<rparr>) a ev = main sys (rs\<lparr>train_fn := tf\<rparr>) a ev"
      by (rule main_without_lr_schedule [OF assms])
    also have "\<dots> = main sys rs a ev"
      by (rule main_without_lr_runners [OF assms])
    finally show ?thesis using m by simp
  qed
  with m show ?thesis by blast
qed

text \<open>
  A run with the parser's defaults on a system in which no call fails and whose schedule
  multiplies the rate by gamma every \<open>lr_step\<close> steps: \<open>main\<close> raises AttributeError for \<open>lr\<close>.
\<close>

theorem main_raises_before_schedule_witness:
  "extra parser_defaults ''lr'' = None
   \<and> (\<exists>e ev'.
        main \<lparr>makedirs = (\<lambda>p (f :: unit). (None, f)), start_logging = (\<lambda>p d f. (None, f)),
              init_process_group = (\<lambda>b u n. None), build_model = (\<lambda>a f. Inr ()),
              uncertain_parameters = (\<lambda>m. None), adam = (\<lambda>m v. Inr ((), 0)),
              step_lr = (\<lambda>r s g k. r * g ^ (k div nat s)), carla_data = None,
              isfile = (\<lambda>f p. False), torch_load = (\<lambda>f p. Inl RuntimeError),
              torch_save = (\<lambda>c p f. (None, f)), copyfile = (\<lambda>s d f. (None, f))\<rparr>
             \<lparr>train_fn = (\<lambda>a epoch w. (Inr (lr w, 0, 0), w)),
              eval_fn = (\<lambda>a epoch w. (Inr 1, w))\<rparr>
             parser_defaults \<lparr>env_files = (), env_writer = [], env_log = []\<rparr> = (Some e, ev')
        \<and> e = AttributeError ''lr'')"
  using main_raises_before_schedule
    [of parser_defaults
        "\<lparr>makedirs = (\<lambda>p (f :: unit). (None, f)), start_logging = (\<lambda>p d f. (None, f)),
          init_process_group = (\<lambda>b u n. None), build_model = (\<lambda>a f. Inr ()),
          uncertain_parameters = (\<lambda>m. None), adam = (\<lambda>m v. Inr ((), 0)),
          step_lr = (\<lambda>r s g k. r * g ^ (k div nat s)), carla_data = None,
          isfile = (\<lambda>f p. False), torch_load = (\<lambda>f p. Inl RuntimeError),
          torch_save = (\<lambda>c p f. (None, f)), copyfile = (\<lambda>s d f. (None, f))\<rparr>"
        "\<lparr>train_fn = (\<lambda>a epoch w. (Inr (lr w, 0, 0), w)),
          eval_fn = (\<lambda>a epoch w. (Inr 1, w))\<rparr>"
        "\<lparr>env_files = (), env_writer = [], env_log = []\<rparr>"]
  by (simp add: main_defs)

end
